theory Spec2Isabelle
  imports Main "HOL-Library.Word" "HOL-Library.Signed_Division"
begin

section \<open>Errors\<close>

text \<open>
  The reason of an API status is a string; these are the reasons the API machinery knows
  (the table \<open>knownReasons\<close> of its package \<open>errors\<close>, which leaves out the unknown,
  empty reason).
\<close>

type_synonym StatusReason = string

definition StatusReasonUnknown :: StatusReason where
  "StatusReasonUnknown = []"

definition StatusReasonNotFound :: StatusReason where
  "StatusReasonNotFound = ''NotFound''"

definition StatusReasonConflict :: StatusReason where
  "StatusReasonConflict = ''Conflict''"

definition StatusReasonForbidden :: StatusReason where
  "StatusReasonForbidden = ''Forbidden''"

definition StatusReasonAlreadyExists :: StatusReason where
  "StatusReasonAlreadyExists = ''AlreadyExists''"

definition knownReasons :: "StatusReason list" where
  "knownReasons =
     [''Unauthorized'', StatusReasonForbidden, StatusReasonNotFound, StatusReasonAlreadyExists,
      StatusReasonConflict, ''Gone'', ''Invalid'', ''ServerTimeout'', ''Timeout'', ''TooManyRequests'',
      ''BadRequest'', ''MethodNotAllowed'', ''NotAcceptable'', ''RequestEntityTooLarge'',
      ''UnsupportedMediaType'', ''InternalError'', ''Expired'', ''ServiceUnavailable'']"

text \<open>
  Go errors as values. \<open>StatusError\<close> is the API machinery's status error with its
  reason, its HTTP code (an \<open>int32\<close>) and its message, \<open>Errorf\<close> a formatted message,
  \<open>ErrorfV\<close> a message that prints another error with \<open>%v\<close> (not unwrappable),
  \<open>Wrapf\<close> one that wraps it with \<open>%w\<close>, and \<open>JoinError\<close> the result of
  \<open>errors.Join\<close>.
\<close>

datatype error =
    StatusError StatusReason "32 word" string
  | Errorf string
  | ErrorfV string error
  | Wrapf string error
  | JoinError "error list"

text \<open>\<open>errors.As\<close> for an API status: the error itself, then what it wraps, depth first.\<close>

fun asStatus :: "error \<Rightarrow> (StatusReason \<times> 32 word) option"
  and asStatusList :: "error list \<Rightarrow> (StatusReason \<times> 32 word) option" where
  "asStatus (StatusError r c m) = Some (r, c)"
| "asStatus (Errorf m) = None"
| "asStatus (ErrorfV m e) = None"
| "asStatus (Wrapf m e) = asStatus e"
| "asStatus (JoinError es) = asStatusList es"
| "asStatusList [] = None"
| "asStatusList (e # es) = (case asStatus e of Some rc \<Rightarrow> Some rc | None \<Rightarrow> asStatusList es)"

text \<open>
  \<open>reasonAndCodeForError\<close>, and the two predicates of the API machinery built on it: an
  error is a not-found error when its reason is \<open>NotFound\<close>, and also when its reason is
  none of the known ones and its code is 404; likewise for a conflict and 409.
\<close>

definition reasonAndCodeForError :: "error \<Rightarrow> StatusReason \<times> 32 word" where
  "reasonAndCodeForError err =
     (case asStatus err of Some (reason, code) \<Rightarrow> (reason, code) | None \<Rightarrow> (StatusReasonUnknown, 0))"

definition IsNotFound :: "error \<Rightarrow> bool" where
  "IsNotFound err =
     (case reasonAndCodeForError err of (reason, code) \<Rightarrow>
        if reason = StatusReasonNotFound then True
        else if reason \<notin> set knownReasons \<and> code = 404 then True
        else False)"

definition IsConflict :: "error \<Rightarrow> bool" where
  "IsConflict err =
     (case reasonAndCodeForError err of (reason, code) \<Rightarrow>
        if reason = StatusReasonConflict then True
        else if reason \<notin> set knownReasons \<and> code = 409 then True
        else False)"

text \<open>\<open>errors.Join\<close>: nil arguments are dropped; nil when none is left.\<close>

definition errors_Join :: "error option list \<Rightarrow> error option" where
  "errors_Join errs =
     (let es = List.map_filter id errs in if es = [] then None else Some (JoinError es))"

section \<open>Objects\<close>

text \<open>
  A Go map that may be nil: \<open>None\<close> is the nil map. Reading a missing key (or a nil map)
  gives the empty string.
\<close>

type_synonym gomap = "(string \<times> string) list option"

definition mapGet :: "gomap \<Rightarrow> string \<Rightarrow> string" where
  "mapGet m k = (case m of None \<Rightarrow> '''' | Some kvs \<Rightarrow>
                   (case map_of kvs k of None \<Rightarrow> '''' | Some v \<Rightarrow> v))"

definition mapHas :: "gomap \<Rightarrow> string \<Rightarrow> bool" where
  "mapHas m k = (case m of None \<Rightarrow> False | Some kvs \<Rightarrow> map_of kvs k \<noteq> None)"

fun alistSet :: "string \<Rightarrow> string \<Rightarrow> (string \<times> string) list \<Rightarrow> (string \<times> string) list" where
  "alistSet k v [] = [(k, v)]"
| "alistSet k v (p # ps) = (if fst p = k then (k, v) # ps else p # alistSet k v ps)"

text \<open>\<open>if m == nil { m = make(map) }; m[k] = v\<close>\<close>

definition mapSet :: "gomap \<Rightarrow> string \<Rightarrow> string \<Rightarrow> gomap" where
  "mapSet m k v = Some (alistSet k v (case m of None \<Rightarrow> [] | Some kvs \<Rightarrow> kvs))"

record ObjectMeta =
  Name :: string
  Namespace :: string
  UID :: string
  Labels :: gomap
  Annotations :: gomap
  DeletionTimestamp :: "int option"

record ClusterRoleTemplateBinding = ObjectMeta +
  UserName :: string
  UserPrincipalName :: string
  GroupName :: string
  GroupPrincipalName :: string
  ClusterName :: string
  RoleTemplateName :: string

record User = ObjectMeta +
  PrincipalIDs :: "string list"

text \<open>Of these objects the handlers read the metadata only.\<close>

type_synonym Project = ObjectMeta
type_synonym Cluster = ObjectMeta
type_synonym RoleBinding = ObjectMeta
type_synonym ClusterRoleBinding = ObjectMeta

definition metaOf :: "'a ObjectMeta_scheme \<Rightarrow> ObjectMeta" where
  "metaOf x = ObjectMeta.truncate x"

section \<open>Label selectors\<close>

datatype Operator = OpEquals | OpNotEquals | OpIn | OpNotIn | OpExists | OpDoesNotExist

record Requirement =
  reqKey :: string
  reqOperator :: Operator
  reqValues :: "string list"

text \<open>
  A selector is the conjunction of its requirements. \<open>Set.AsSelector\<close> turns every pair
  of the set into an equality requirement; \<open>Add\<close> appends requirements.
\<close>

type_synonym Selector = "Requirement list"

definition AsSelector :: "(string \<times> string) list \<Rightarrow> Selector" where
  "AsSelector kvs =
     map (\<lambda>kv. \<lparr>reqKey = fst kv, reqOperator = OpEquals, reqValues = [snd kv]\<rparr>) kvs"

definition Add :: "Selector \<Rightarrow> Requirement list \<Rightarrow> Selector" where
  "Add sel reqs = sel @ reqs"

fun reqMatches :: "Requirement \<Rightarrow> gomap \<Rightarrow> bool" where
  "reqMatches r ls =
     (case reqOperator r of
        OpEquals \<Rightarrow> mapHas ls (reqKey r) \<and> mapGet ls (reqKey r) \<in> set (reqValues r)
      | OpIn \<Rightarrow> mapHas ls (reqKey r) \<and> mapGet ls (reqKey r) \<in> set (reqValues r)
      | OpNotEquals \<Rightarrow> \<not> mapHas ls (reqKey r) \<or> mapGet ls (reqKey r) \<notin> set (reqValues r)
      | OpNotIn \<Rightarrow> \<not> mapHas ls (reqKey r) \<or> mapGet ls (reqKey r) \<notin> set (reqValues r)
      | OpExists \<Rightarrow> mapHas ls (reqKey r)
      | OpDoesNotExist \<Rightarrow> \<not> mapHas ls (reqKey r))"

definition Matches :: "Selector \<Rightarrow> gomap \<Rightarrow> bool" where
  "Matches sel ls = list_all (\<lambda>r. reqMatches r ls) sel"

section \<open>Calls on collaborators\<close>

text \<open>
  Every collaborator of a handler (a lister, a client, the manager) is an interface in
  the source; here it is a function on the state of the outside world \<open>'w\<close>, returning its
  result and the new world. The handlers thread the world together with the log of the
  calls they made, in order.
\<close>

type_synonym ('w, 'c) st = "'w \<times> 'c list"

definition invoke :: "'c \<Rightarrow> ('w \<Rightarrow> 'a \<times> 'w) \<Rightarrow> ('w, 'c) st \<Rightarrow> 'a \<times> ('w, 'c) st" where
  "invoke c f s = (case f (fst s) of (r, w') \<Rightarrow> (r, (w', snd s @ [c])))"

section \<open>Retry on conflict\<close>

text \<open>
  \<open>retry.RetryOnConflict(backoff, fn)\<close> of client-go: \<open>fn\<close> runs up to \<open>Steps\<close> times;
  it stops at the first nil or non-conflict error, and when the steps run out it returns
  the last conflict. \<open>retry.DefaultRetry\<close> has five steps. The sleeps between attempts
  are not modelled.
\<close>

fun retryLoop :: "nat \<Rightarrow> ('s \<Rightarrow> error option \<times> 's) \<Rightarrow> error option \<Rightarrow> 's \<Rightarrow> error option \<times> 's" where
  "retryLoop 0 fn lastErr s = (lastErr, s)"
| "retryLoop (Suc n) fn lastErr s =
     (case fn s of
        (None, s') \<Rightarrow> (None, s')
      | (Some e, s') \<Rightarrow> if IsConflict e then retryLoop n fn (Some e) s' else (Some e, s'))"

definition DefaultRetry :: nat where
  "DefaultRetry = 5"

definition RetryOnConflict :: "nat \<Rightarrow> ('s \<Rightarrow> error option \<times> 's) \<Rightarrow> 's \<Rightarrow> error option \<times> 's" where
  "RetryOnConflict steps fn s = retryLoop steps fn None s"

section \<open>The cluster role template binding handler\<close>

record Subject =
  Kind :: string
  SubjectName :: string
  APIGroup :: string

definition MembershipBindingOwnerLegacy :: string where
  "MembershipBindingOwnerLegacy = ''memberhsip-binding-owner''"

definition MembershipBindingOwner :: string where
  "MembershipBindingOwner = ''membership-binding-owner''"

definition CrtbInProjectBindingOwner :: string where
  "CrtbInProjectBindingOwner = ''crtb-in-project-binding-owner''"

definition rtbLabelUpdated :: string where
  "rtbLabelUpdated = ''auth.management.cattle.io/rtb-label-updated''"

definition RtbCrbRbLabelsUpdated :: string where
  "RtbCrbRbLabelsUpdated = ''auth.management.cattle.io/crb-rb-labels-updated''"

definition NamespaceAll :: string where
  "NamespaceAll = []"

definition clusterManagementPlaneResources :: "(string \<times> string) list" where
  "clusterManagementPlaneResources =
     [(''clusterscans'', ''management.cattle.io''),
      (''catalogtemplates'', ''management.cattle.io''),
      (''catalogtemplateversions'', ''management.cattle.io''),
      (''clusteralertrules'', ''management.cattle.io''),
      (''clusteralertgroups'', ''management.cattle.io''),
      (''clustercatalogs'', ''management.cattle.io''),
      (''clusterloggings'', ''management.cattle.io''),
      (''clustermonitorgraphs'', ''management.cattle.io''),
      (''clusterregistrationtokens'', ''management.cattle.io''),
      (''clusterroletemplatebindings'', ''management.cattle.io''),
      (''etcdbackups'', ''management.cattle.io''),
      (''nodes'', ''management.cattle.io''),
      (''nodepools'', ''management.cattle.io''),
      (''notifiers'', ''management.cattle.io''),
      (''projects'', ''management.cattle.io''),
      (''etcdsnapshots'', ''rke.cattle.io'')]"

text \<open>The calls the handler makes, with their arguments, and the lines it logs.\<close>

datatype crtbCall =
    UserMGR_EnsureUser string string
  | UserLister_Get string string
  | ClusterLister_Get string string
  | Mgr_checkReferencedRoles string string nat
  | Mgr_ensureClusterMembershipBinding string string Cluster bool Subject
  | Mgr_grantManagementPlanePrivileges string Subject
  | Mgr_grantManagementClusterScopedPrivilegesInProjectNamespace string string Subject
  | Mgr_reconcileClusterMembershipBindingForDelete string string
  | Mgr_removeAuthV2Permissions string ClusterRoleTemplateBinding
  | ProjectLister_List string
  | RbLister_List string Selector
  | RbClient_GetNamespaced string string
  | RbClient_Update RoleBinding
  | RbClient_DeleteNamespaced string string
  | CrbLister_List string Selector
  | CrbClient_Get string
  | CrbClient_Update ClusterRoleBinding
  | CrtbClient_GetNamespaced string string
  | CrtbClient_Update ClusterRoleTemplateBinding
  | Logrus_Warnf string
  | Logrus_Infof string

definition logrus :: "'c \<Rightarrow> ('w, 'c) st \<Rightarrow> ('w, 'c) st" where
  "logrus c s = (fst s, snd s @ [c])"

text \<open>
  The struct \<open>crtbLifecycle\<close>: one field for each method the handler calls on its
  collaborators. The last six fields are package-level helpers and constants that the
  handler uses and whose source is not part of this development
  (\<open>pkgrbac.GetRTBLabel\<close>, \<open>pkgrbac.BuildSubjectFromRTB\<close>, \<open>getLabelRequirements\<close>,
  \<open>clusterContext\<close>, \<open>projectManagementPlaneResources\<close>,
  \<open>authprovisioningv2.CRTBRoleBindingID\<close>); they are parameters.
\<close>

record 'w crtbLifecycle =
  mgr_checkReferencedRoles :: "string \<Rightarrow> string \<Rightarrow> nat \<Rightarrow> 'w \<Rightarrow> (error + bool) \<times> 'w"
  mgr_ensureClusterMembershipBinding ::
    "string \<Rightarrow> string \<Rightarrow> Cluster \<Rightarrow> bool \<Rightarrow> Subject \<Rightarrow> 'w \<Rightarrow> error option \<times> 'w"
  mgr_grantManagementPlanePrivileges ::
    "string \<Rightarrow> (string \<times> string) list \<Rightarrow> Subject \<Rightarrow> ClusterRoleTemplateBinding
       \<Rightarrow> 'w \<Rightarrow> error option \<times> 'w"
  mgr_grantManagementClusterScopedPrivilegesInProjectNamespace ::
    "string \<Rightarrow> string \<Rightarrow> (string \<times> string) list \<Rightarrow> Subject \<Rightarrow> ClusterRoleTemplateBinding
       \<Rightarrow> 'w \<Rightarrow> error option \<times> 'w"
  mgr_reconcileClusterMembershipBindingForDelete ::
    "string \<Rightarrow> string \<Rightarrow> 'w \<Rightarrow> error option \<times> 'w"
  mgr_removeAuthV2Permissions ::
    "string \<Rightarrow> ClusterRoleTemplateBinding \<Rightarrow> 'w \<Rightarrow> error option \<times> 'w"
  clusterLister_Get :: "string \<Rightarrow> string \<Rightarrow> 'w \<Rightarrow> (error + Cluster option) \<times> 'w"
  userMGR_EnsureUser :: "string \<Rightarrow> string \<Rightarrow> 'w \<Rightarrow> (error + User) \<times> 'w"
  userLister_Get :: "string \<Rightarrow> string \<Rightarrow> 'w \<Rightarrow> (error + User) \<times> 'w"
  projectLister_List :: "string \<Rightarrow> 'w \<Rightarrow> (error + Project list) \<times> 'w"
  rbLister_List :: "string \<Rightarrow> Selector \<Rightarrow> 'w \<Rightarrow> (error + RoleBinding list) \<times> 'w"
  rbClient_GetNamespaced :: "string \<Rightarrow> string \<Rightarrow> 'w \<Rightarrow> (error + RoleBinding) \<times> 'w"
  rbClient_Update :: "RoleBinding \<Rightarrow> 'w \<Rightarrow> (error + RoleBinding) \<times> 'w"
  rbClient_DeleteNamespaced :: "string \<Rightarrow> string \<Rightarrow> 'w \<Rightarrow> error option \<times> 'w"
  crbLister_List :: "string \<Rightarrow> Selector \<Rightarrow> 'w \<Rightarrow> (error + ClusterRoleBinding list) \<times> 'w"
  crbClient_Get :: "string \<Rightarrow> 'w \<Rightarrow> (error + ClusterRoleBinding) \<times> 'w"
  crbClient_Update :: "ClusterRoleBinding \<Rightarrow> 'w \<Rightarrow> (error + ClusterRoleBinding) \<times> 'w"
  crtbClient_GetNamespaced ::
    "string \<Rightarrow> string \<Rightarrow> 'w \<Rightarrow> (error + ClusterRoleTemplateBinding) \<times> 'w"
  crtbClient_Update ::
    "ClusterRoleTemplateBinding \<Rightarrow> 'w \<Rightarrow> (error + ClusterRoleTemplateBinding) \<times> 'w"
  pkgrbac_GetRTBLabel :: "ObjectMeta \<Rightarrow> string"
  pkgrbac_BuildSubjectFromRTB :: "ClusterRoleTemplateBinding \<Rightarrow> error + Subject"
  getLabelRequirements :: "ObjectMeta \<Rightarrow> error + Requirement list"
  clusterContext :: string
  projectManagementPlaneResources :: "(string \<times> string) list"
  CRTBRoleBindingID :: string

subsection \<open>reconcileSubject\<close>

text \<open>\<open>strings.HasSuffix(s, suffix)\<close>\<close>

definition HasSuffix :: "string \<Rightarrow> string \<Rightarrow> bool" where
  "HasSuffix s suffix =
     (length s \<ge> length suffix \<and> drop (length s - length suffix) s = suffix)"

text \<open>The loop over \<open>u.PrincipalIDs\<close>, leaving at the first match.\<close>

fun scanPrincipalIDs :: "string list \<Rightarrow> ClusterRoleTemplateBinding \<Rightarrow> ClusterRoleTemplateBinding" where
  "scanPrincipalIDs [] binding = binding"
| "scanPrincipalIDs (p # ps) binding =
     (if HasSuffix p (UserName binding) then binding\<lparr>UserPrincipalName := p\<rparr>
      else scanPrincipalIDs ps binding)"

text \<open>
  The result is the pair the Go function returns: the binding (\<open>None\<close> is nil) and the
  error (\<open>None\<close> is nil).
\<close>

definition reconcileSubject ::
  "'w crtbLifecycle \<Rightarrow> ClusterRoleTemplateBinding \<Rightarrow> ('w, crtbCall) st
     \<Rightarrow> (ClusterRoleTemplateBinding option \<times> error option) \<times> ('w, crtbCall) st" where
  "reconcileSubject c binding s =
     (if GroupName binding \<noteq> [] \<or> GroupPrincipalName binding \<noteq> []
         \<or> (UserPrincipalName binding \<noteq> [] \<and> UserName binding \<noteq> [])
      then ((Some binding, None), s)
      else if UserPrincipalName binding \<noteq> [] \<and> UserName binding = [] then
        (let displayName = mapGet (Annotations binding) ''auth.cattle.io/principal-display-name'' in
         case invoke (UserMGR_EnsureUser (UserPrincipalName binding) displayName)
                (userMGR_EnsureUser c (UserPrincipalName binding) displayName) s of
           (Inl err, s') \<Rightarrow> ((Some binding, Some err), s')
         | (Inr user, s') \<Rightarrow> ((Some (binding\<lparr>UserName := Name user\<rparr>), None), s'))
      else if UserPrincipalName binding = [] \<and> UserName binding \<noteq> [] then
        (case invoke (UserLister_Get [] (UserName binding))
                (userLister_Get c [] (UserName binding)) s of
           (Inl err, s') \<Rightarrow> ((Some binding, Some err), s')
         | (Inr u, s') \<Rightarrow> ((Some (scanPrincipalIDs (PrincipalIDs u) binding), None), s'))
      else ((None, Some (Errorf (''ClusterRoleTemplateBinding '' @ Name binding @ '' has no subject''))), s))"

subsection \<open>reconcileBindings\<close>

text \<open>
  \<open>strings.ToLower\<close> on a string of ASCII bytes, where it lowers the letters A to Z and
  leaves every other byte. That is the case it is called in: its argument is the name of a
  cluster, which the API server admits only as a DNS label, followed by an ASCII suffix. A
  byte above 127 is left as it is here, where the library would lower the letter that the
  bytes encode.
\<close>

definition toLowerChar :: "char \<Rightarrow> char" where
  "toLowerChar ch =
     (if (65::nat) \<le> of_char ch \<and> of_char ch \<le> (90::nat) then char_of (of_char ch + (32::nat)) else ch)"

definition ToLower :: "string \<Rightarrow> string" where
  "ToLower s = map toLowerChar s"

text \<open>The loop over the projects of the binding's namespace.\<close>

fun grantInProjects ::
  "'w crtbLifecycle \<Rightarrow> ClusterRoleTemplateBinding \<Rightarrow> Subject \<Rightarrow> Project list
     \<Rightarrow> ('w, crtbCall) st \<Rightarrow> error option \<times> ('w, crtbCall) st" where
  "grantInProjects c binding subject [] s = (None, s)"
| "grantInProjects c binding subject (p # ps) s =
     (if DeletionTimestamp p \<noteq> None then
        grantInProjects c binding subject ps
          (logrus (Logrus_Warnf (''Project '' @ Name p @ '' is being deleted, not creating membership bindings'')) s)
      else
        (case invoke (Mgr_grantManagementClusterScopedPrivilegesInProjectNamespace
                        (RoleTemplateName binding) (Name p) subject)
                (mgr_grantManagementClusterScopedPrivilegesInProjectNamespace c
                   (RoleTemplateName binding) (Name p) (projectManagementPlaneResources c)
                   subject binding) s of
           (Some err, s') \<Rightarrow> (Some err, s')
         | (None, s') \<Rightarrow> grantInProjects c binding subject ps s'))"

definition reconcileBindings ::
  "'w crtbLifecycle \<Rightarrow> ClusterRoleTemplateBinding \<Rightarrow> ('w, crtbCall) st
     \<Rightarrow> error option \<times> ('w, crtbCall) st" where
  "reconcileBindings c binding s =
     (if UserName binding = [] \<and> GroupPrincipalName binding = [] \<and> GroupName binding = []
      then (None, s)
      else
        let clusterName = ClusterName binding in
        case invoke (ClusterLister_Get [] clusterName) (clusterLister_Get c [] clusterName) s of
          (Inl err, s1) \<Rightarrow> (Some err, s1)
        | (Inr None, s1) \<Rightarrow>
            (Some (Errorf (''cannot create binding because cluster '' @ clusterName @ '' was not found'')), s1)
        | (Inr (Some cluster), s1) \<Rightarrow>
           (case invoke (Mgr_checkReferencedRoles (RoleTemplateName binding) (clusterContext c) 0)
                   (mgr_checkReferencedRoles c (RoleTemplateName binding) (clusterContext c) 0) s1 of
              (Inl err, s2) \<Rightarrow>
                if IsNotFound err then
                  (None, logrus (Logrus_Warnf (''ClusterRoleTemplateBinding '' @ Name binding
                      @ '' sets a non-existing role template '' @ RoleTemplateName binding
                      @ ''. Skipping.'')) s2)
                else (Some err, s2)
            | (Inr isOwnerRole, s2) \<Rightarrow>
               (let clusterRoleName =
                      (if isOwnerRole then ToLower (clusterName @ ''-clusterowner'')
                       else ToLower (clusterName @ ''-clustermember'')) in
                case pkgrbac_BuildSubjectFromRTB c binding of
                  Inl err \<Rightarrow> (Some err, s2)
                | Inr subject \<Rightarrow>
                   (case invoke (Mgr_ensureClusterMembershipBinding clusterRoleName
                                   (pkgrbac_GetRTBLabel c (metaOf binding)) cluster isOwnerRole subject)
                           (mgr_ensureClusterMembershipBinding c clusterRoleName
                              (pkgrbac_GetRTBLabel c (metaOf binding)) cluster isOwnerRole subject) s2 of
                      (Some err, s3) \<Rightarrow> (Some err, s3)
                    | (None, s3) \<Rightarrow>
                       (case invoke (Mgr_grantManagementPlanePrivileges (RoleTemplateName binding) subject)
                               (mgr_grantManagementPlanePrivileges c (RoleTemplateName binding)
                                  clusterManagementPlaneResources subject binding) s3 of
                          (Some err, s4) \<Rightarrow> (Some err, s4)
                        | (None, s4) \<Rightarrow>
                           (case invoke (ProjectLister_List (Namespace binding))
                                   (projectLister_List c (Namespace binding)) s4 of
                              (Inl err, s5) \<Rightarrow> (Some err, s5)
                            | (Inr projects, s5) \<Rightarrow>
                                grantInProjects c binding subject projects s5))))))"

subsection \<open>removeMGMTClusterScopedPrivilegesInProjectNamespace\<close>

definition ctrbMGMTController :: string where
  "ctrbMGMTController = ''mgmt-auth-crtb-controller''"

text \<open>The inner loop: delete every role binding the lister returned for one project.\<close>

fun deleteRoleBindings ::
  "'w crtbLifecycle \<Rightarrow> ClusterRoleTemplateBinding \<Rightarrow> string \<Rightarrow> RoleBinding list
     \<Rightarrow> ('w, crtbCall) st \<Rightarrow> error option \<times> ('w, crtbCall) st" where
  "deleteRoleBindings c binding pName [] s = (None, s)"
| "deleteRoleBindings c binding pName (rb # rbs) s =
     (case invoke (RbClient_DeleteNamespaced pName (Name rb))
             (rbClient_DeleteNamespaced c pName (Name rb))
             (logrus (Logrus_Infof (''['' @ ctrbMGMTController @ ''] Deleting rolebinding '' @ Name rb
                @ '' in namespace '' @ pName @ '' for crtb '' @ Name binding)) s) of
        (Some err, s') \<Rightarrow> (Some err, s')
      | (None, s') \<Rightarrow> deleteRoleBindings c binding pName rbs s')"

text \<open>The outer loop over the projects.\<close>

fun removeInProjects ::
  "'w crtbLifecycle \<Rightarrow> ClusterRoleTemplateBinding \<Rightarrow> string \<Rightarrow> Project list
     \<Rightarrow> ('w, crtbCall) st \<Rightarrow> error option \<times> ('w, crtbCall) st" where
  "removeInProjects c binding bindingKey [] s = (None, s)"
| "removeInProjects c binding bindingKey (p # ps) s =
     (let sel = AsSelector [(bindingKey, CrtbInProjectBindingOwner)] in
      case invoke (RbLister_List (Name p) sel) (rbLister_List c (Name p) sel) s of
        (Inl err, s1) \<Rightarrow> (Some err, s1)
      | (Inr rbs, s1) \<Rightarrow>
         (case deleteRoleBindings c binding (Name p) rbs s1 of
            (Some err, s2) \<Rightarrow> (Some err, s2)
          | (None, s2) \<Rightarrow> removeInProjects c binding bindingKey ps s2))"

definition removeMGMTClusterScopedPrivilegesInProjectNamespace ::
  "'w crtbLifecycle \<Rightarrow> ClusterRoleTemplateBinding \<Rightarrow> ('w, crtbCall) st
     \<Rightarrow> error option \<times> ('w, crtbCall) st" where
  "removeMGMTClusterScopedPrivilegesInProjectNamespace c binding s =
     (case invoke (ProjectLister_List (Namespace binding))
             (projectLister_List c (Namespace binding)) s of
        (Inl err, s1) \<Rightarrow> (Some err, s1)
      | (Inr projects, s1) \<Rightarrow>
          removeInProjects c binding (pkgrbac_GetRTBLabel c (metaOf binding)) projects s1)"

subsection \<open>reconcileLabels\<close>

text \<open>The three functions handed to \<open>RetryOnConflict\<close>.\<close>

definition updateCRBLabels ::
  "'w crtbLifecycle \<Rightarrow> string \<Rightarrow> ClusterRoleBinding \<Rightarrow> ('w, crtbCall) st
     \<Rightarrow> error option \<times> ('w, crtbCall) st" where
  "updateCRBLabels c bindingKey crb s =
     (case invoke (CrbClient_Get (Name crb)) (crbClient_Get c (Name crb)) s of
        (Inl updateErr, s1) \<Rightarrow> (Some updateErr, s1)
      | (Inr crbToUpdate, s1) \<Rightarrow>
         (let crbToUpdate' = crbToUpdate\<lparr>Labels :=
                mapSet (mapSet (Labels crbToUpdate) bindingKey MembershipBindingOwner)
                  rtbLabelUpdated ''true''\<rparr> in
          case invoke (CrbClient_Update crbToUpdate') (crbClient_Update c crbToUpdate') s1 of
            (Inl err, s2) \<Rightarrow> (Some err, s2)
          | (Inr updated, s2) \<Rightarrow> (None, s2)))"

definition updateRBLabels ::
  "'w crtbLifecycle \<Rightarrow> string \<Rightarrow> RoleBinding \<Rightarrow> ('w, crtbCall) st
     \<Rightarrow> error option \<times> ('w, crtbCall) st" where
  "updateRBLabels c bindingKey rb s =
     (case invoke (RbClient_GetNamespaced (Namespace rb) (Name rb))
             (rbClient_GetNamespaced c (Namespace rb) (Name rb)) s of
        (Inl updateErr, s1) \<Rightarrow> (Some updateErr, s1)
      | (Inr rbToUpdate, s1) \<Rightarrow>
         (let rbToUpdate' = rbToUpdate\<lparr>Labels :=
                mapSet (mapSet (Labels rbToUpdate) bindingKey CrtbInProjectBindingOwner)
                  rtbLabelUpdated ''true''\<rparr> in
          case invoke (RbClient_Update rbToUpdate') (rbClient_Update c rbToUpdate') s1 of
            (Inl err, s2) \<Rightarrow> (Some err, s2)
          | (Inr updated, s2) \<Rightarrow> (None, s2)))"

definition updateCRTBLabel ::
  "'w crtbLifecycle \<Rightarrow> ClusterRoleTemplateBinding \<Rightarrow> ('w, crtbCall) st
     \<Rightarrow> error option \<times> ('w, crtbCall) st" where
  "updateCRTBLabel c binding s =
     (case invoke (CrtbClient_GetNamespaced (Namespace binding) (Name binding))
             (crtbClient_GetNamespaced c (Namespace binding) (Name binding)) s of
        (Inl updateErr, s1) \<Rightarrow> (Some updateErr, s1)
      | (Inr crtbToUpdate, s1) \<Rightarrow>
         (let crtbToUpdate' = crtbToUpdate\<lparr>Labels :=
                mapSet (Labels crtbToUpdate) RtbCrbRbLabelsUpdated ''true''\<rparr> in
          case invoke (CrtbClient_Update crtbToUpdate') (crtbClient_Update c crtbToUpdate') s1 of
            (Inl err, s2) \<Rightarrow> (Some err, s2)
          | (Inr updated, s2) \<Rightarrow> (None, s2)))"

text \<open>The two loops; \<open>returnErr\<close> is carried from one item to the next.\<close>

fun relabelCRBs ::
  "'w crtbLifecycle \<Rightarrow> string \<Rightarrow> ClusterRoleBinding list \<Rightarrow> error option
     \<Rightarrow> ('w, crtbCall) st \<Rightarrow> error option \<times> ('w, crtbCall) st" where
  "relabelCRBs c bindingKey [] returnErr s = (returnErr, s)"
| "relabelCRBs c bindingKey (crb # crbs) returnErr s =
     (case RetryOnConflict DefaultRetry (updateCRBLabels c bindingKey crb) s of
        (retryErr, s') \<Rightarrow>
          relabelCRBs c bindingKey crbs (errors_Join [returnErr, retryErr]) s')"

fun relabelRBs ::
  "'w crtbLifecycle \<Rightarrow> string \<Rightarrow> RoleBinding list \<Rightarrow> error option
     \<Rightarrow> ('w, crtbCall) st \<Rightarrow> error option \<times> ('w, crtbCall) st" where
  "relabelRBs c bindingKey [] returnErr s = (returnErr, s)"
| "relabelRBs c bindingKey (rb # rbs) returnErr s =
     (case RetryOnConflict DefaultRetry (updateRBLabels c bindingKey rb) s of
        (retryErr, s') \<Rightarrow>
          relabelRBs c bindingKey rbs (errors_Join [returnErr, retryErr]) s')"

definition reconcileLabels ::
  "'w crtbLifecycle \<Rightarrow> ClusterRoleTemplateBinding \<Rightarrow> ('w, crtbCall) st
     \<Rightarrow> error option \<times> ('w, crtbCall) st" where
  "reconcileLabels c binding s =
     (if mapGet (Labels binding) RtbCrbRbLabelsUpdated = ''true'' then (None, s)
      else
        case getLabelRequirements c (metaOf binding) of
          Inl err \<Rightarrow> (Some err, s)
        | Inr requirements \<Rightarrow>
           (let sel = Add (AsSelector [(UID binding, MembershipBindingOwnerLegacy)]) requirements in
            case invoke (CrbLister_List NamespaceAll sel) (crbLister_List c NamespaceAll sel) s of
              (Inl err, s1) \<Rightarrow> (Some err, s1)
            | (Inr crbs, s1) \<Rightarrow>
               (let bindingKey = pkgrbac_GetRTBLabel c (metaOf binding) in
                case relabelCRBs c bindingKey crbs None s1 of
                  (returnErr, s2) \<Rightarrow>
                   (let sel' = Add (AsSelector [(UID binding, CrtbInProjectBindingOwner)]) requirements in
                    case invoke (RbLister_List NamespaceAll sel') (rbLister_List c NamespaceAll sel') s2 of
                      (Inl err, s3) \<Rightarrow> (Some err, s3)
                    | (Inr rbs, s3) \<Rightarrow>
                       (case relabelRBs c bindingKey rbs returnErr s3 of
                          (Some err, s4) \<Rightarrow> (Some err, s4)
                        | (None, s4) \<Rightarrow>
                            RetryOnConflict DefaultRetry (updateCRTBLabel c binding) s4)))))"

subsection \<open>Create, Updated and Remove\<close>

text \<open>
  The hooks return an object and an error. \<open>reconcileSubject\<close> never returns nil for
  both; the source would dereference the nil binding there, which is the last case.
\<close>

definition nilDereference :: error where
  "nilDereference = Errorf ''invalid memory address or nil pointer dereference''"

definition Create ::
  "'w crtbLifecycle \<Rightarrow> ClusterRoleTemplateBinding \<Rightarrow> ('w, crtbCall) st
     \<Rightarrow> (ClusterRoleTemplateBinding option \<times> error option) \<times> ('w, crtbCall) st" where
  "Create c obj s =
     (case reconcileSubject c obj s of
        ((obj', Some err), s1) \<Rightarrow> ((None, Some err), s1)
      | ((Some obj', None), s1) \<Rightarrow>
          (case reconcileBindings c obj' s1 of (err, s2) \<Rightarrow> ((Some obj', err), s2))
      | ((None, None), s1) \<Rightarrow> ((None, Some nilDereference), s1))"

definition Updated ::
  "'w crtbLifecycle \<Rightarrow> ClusterRoleTemplateBinding \<Rightarrow> ('w, crtbCall) st
     \<Rightarrow> (ClusterRoleTemplateBinding option \<times> error option) \<times> ('w, crtbCall) st" where
  "Updated c obj s =
     (case reconcileSubject c obj s of
        ((obj', Some err), s1) \<Rightarrow> ((None, Some err), s1)
      | ((Some obj', None), s1) \<Rightarrow>
          (case reconcileLabels c obj' s1 of
             (Some err, s2) \<Rightarrow> ((None, Some err), s2)
           | (None, s2) \<Rightarrow>
               (case reconcileBindings c obj' s2 of (err, s3) \<Rightarrow> ((Some obj', err), s3)))
      | ((None, None), s1) \<Rightarrow> ((None, Some nilDereference), s1))"

definition Remove ::
  "'w crtbLifecycle \<Rightarrow> ClusterRoleTemplateBinding \<Rightarrow> ('w, crtbCall) st
     \<Rightarrow> (ClusterRoleTemplateBinding option \<times> error option) \<times> ('w, crtbCall) st" where
  "Remove c obj s =
     (case invoke (Mgr_reconcileClusterMembershipBindingForDelete [] (pkgrbac_GetRTBLabel c (metaOf obj)))
             (mgr_reconcileClusterMembershipBindingForDelete c [] (pkgrbac_GetRTBLabel c (metaOf obj))) s of
        (Some err, s1) \<Rightarrow> ((None, Some err), s1)
      | (None, s1) \<Rightarrow>
         (case removeMGMTClusterScopedPrivilegesInProjectNamespace c obj s1 of
            (Some err, s2) \<Rightarrow> ((None, Some err), s2)
          | (None, s2) \<Rightarrow>
             (case invoke (Mgr_removeAuthV2Permissions (CRTBRoleBindingID c) obj)
                     (mgr_removeAuthV2Permissions c (CRTBRoleBindingID c) obj) s2 of
                (err, s3) \<Rightarrow> ((None, err), s3))))"

section \<open>An in-memory API server\<close>

text \<open>
  The collaborators of the handler are interfaces of the Kubernetes client libraries.
  This is their reference behaviour on a store held in memory: objects are found by
  namespace and name, a lister returns the objects of a namespace (of all namespaces for
  the empty namespace) that the selector matches, and a delete removes the object with
  that namespace and name. \<open>kFaults\<close> plants failures: a call that is listed there
  fails with the listed error, once for each time it is listed.
\<close>

record Kube =
  kUsers :: "User list"
  kClusters :: "Cluster list"
  kProjects :: "Project list"
  kRoleBindings :: "RoleBinding list"
  kClusterRoleBindings :: "ClusterRoleBinding list"
  kCRTBs :: "ClusterRoleTemplateBinding list"
  kRoleTemplates :: "(string \<times> bool) list"
  kFaults :: "(crtbCall \<times> error) list"

definition notFound :: "string \<Rightarrow> error" where
  "notFound name = StatusError StatusReasonNotFound 404 name"

fun takeFault :: "crtbCall \<Rightarrow> (crtbCall \<times> error) list \<Rightarrow> (error \<times> (crtbCall \<times> error) list) option" where
  "takeFault call [] = None"
| "takeFault call (f # fs) =
     (if fst f = call then Some (snd f, fs)
      else (case takeFault call fs of None \<Rightarrow> None | Some (e, fs') \<Rightarrow> Some (e, f # fs')))"

definition faultSum :: "crtbCall \<Rightarrow> (Kube \<Rightarrow> (error + 'a) \<times> Kube) \<Rightarrow> Kube \<Rightarrow> (error + 'a) \<times> Kube" where
  "faultSum call f w =
     (case takeFault call (kFaults w) of
        Some (e, fs) \<Rightarrow> (Inl e, w\<lparr>kFaults := fs\<rparr>)
      | None \<Rightarrow> f w)"

definition faultOpt :: "crtbCall \<Rightarrow> (Kube \<Rightarrow> error option \<times> Kube) \<Rightarrow> Kube \<Rightarrow> error option \<times> Kube" where
  "faultOpt call f w =
     (case takeFault call (kFaults w) of
        Some (e, fs) \<Rightarrow> (Some e, w\<lparr>kFaults := fs\<rparr>)
      | None \<Rightarrow> f w)"

definition sameKey :: "string \<Rightarrow> string \<Rightarrow> 'a ObjectMeta_scheme \<Rightarrow> bool" where
  "sameKey ns name x = (Namespace x = ns \<and> Name x = name)"

definition inNamespace :: "string \<Rightarrow> 'a ObjectMeta_scheme \<Rightarrow> bool" where
  "inNamespace ns x = (ns = NamespaceAll \<or> Namespace x = ns)"

definition getObject :: "string \<Rightarrow> string \<Rightarrow> 'a ObjectMeta_scheme list \<Rightarrow> error + 'a ObjectMeta_scheme" where
  "getObject ns name xs =
     (case find (sameKey ns name) xs of None \<Rightarrow> Inl (notFound name) | Some x \<Rightarrow> Inr x)"

definition putObject :: "'a ObjectMeta_scheme \<Rightarrow> 'a ObjectMeta_scheme list \<Rightarrow> 'a ObjectMeta_scheme list" where
  "putObject x xs = map (\<lambda>y. if sameKey (Namespace x) (Name x) y then x else y) xs"

definition kube_userLister_Get :: "string \<Rightarrow> string \<Rightarrow> Kube \<Rightarrow> (error + User) \<times> Kube" where
  "kube_userLister_Get ns name =
     faultSum (UserLister_Get ns name) (\<lambda>w. (getObject ns name (kUsers w), w))"

definition kube_userMGR_EnsureUser :: "string \<Rightarrow> string \<Rightarrow> Kube \<Rightarrow> (error + User) \<times> Kube" where
  "kube_userMGR_EnsureUser pid displayName =
     faultSum (UserMGR_EnsureUser pid displayName)
       (\<lambda>w. case find (\<lambda>u. pid \<in> set (PrincipalIDs u)) (kUsers w) of
               Some u \<Rightarrow> (Inr u, w)
             | None \<Rightarrow>
                (let u = \<lparr>Name = ''u-'' @ pid, Namespace = [], UID = [], Labels = None,
                          Annotations = None, DeletionTimestamp = None,
                          PrincipalIDs = [pid]\<rparr>
                 in (Inr u, w\<lparr>kUsers := kUsers w @ [u]\<rparr>)))"

definition kube_clusterLister_Get :: "string \<Rightarrow> string \<Rightarrow> Kube \<Rightarrow> (error + Cluster option) \<times> Kube" where
  "kube_clusterLister_Get ns name =
     faultSum (ClusterLister_Get ns name)
       (\<lambda>w. (case getObject ns name (kClusters w) of Inl e \<Rightarrow> Inl e | Inr x \<Rightarrow> Inr (Some x), w))"

definition kube_projectLister_List :: "string \<Rightarrow> Kube \<Rightarrow> (error + Project list) \<times> Kube" where
  "kube_projectLister_List ns =
     faultSum (ProjectLister_List ns) (\<lambda>w. (Inr (filter (inNamespace ns) (kProjects w)), w))"

definition kube_rbLister_List :: "string \<Rightarrow> Selector \<Rightarrow> Kube \<Rightarrow> (error + RoleBinding list) \<times> Kube" where
  "kube_rbLister_List ns sel =
     faultSum (RbLister_List ns sel)
       (\<lambda>w. (Inr (filter (\<lambda>x. inNamespace ns x \<and> Matches sel (Labels x)) (kRoleBindings w)), w))"

definition kube_rbClient_GetNamespaced :: "string \<Rightarrow> string \<Rightarrow> Kube \<Rightarrow> (error + RoleBinding) \<times> Kube" where
  "kube_rbClient_GetNamespaced ns name =
     faultSum (RbClient_GetNamespaced ns name) (\<lambda>w. (getObject ns name (kRoleBindings w), w))"

definition kube_rbClient_Update :: "RoleBinding \<Rightarrow> Kube \<Rightarrow> (error + RoleBinding) \<times> Kube" where
  "kube_rbClient_Update rb =
     faultSum (RbClient_Update rb)
       (\<lambda>w. case getObject (Namespace rb) (Name rb) (kRoleBindings w) of
               Inl e \<Rightarrow> (Inl e, w)
             | Inr old \<Rightarrow> (Inr rb, w\<lparr>kRoleBindings := putObject rb (kRoleBindings w)\<rparr>))"

definition kube_rbClient_DeleteNamespaced :: "string \<Rightarrow> string \<Rightarrow> Kube \<Rightarrow> error option \<times> Kube" where
  "kube_rbClient_DeleteNamespaced ns name =
     faultOpt (RbClient_DeleteNamespaced ns name)
       (\<lambda>w. case getObject ns name (kRoleBindings w) of
               Inl e \<Rightarrow> (Some e, w)
             | Inr old \<Rightarrow>
                 (None, w\<lparr>kRoleBindings := filter (\<lambda>x. \<not> sameKey ns name x) (kRoleBindings w)\<rparr>))"

definition kube_crbLister_List :: "string \<Rightarrow> Selector \<Rightarrow> Kube \<Rightarrow> (error + ClusterRoleBinding list) \<times> Kube" where
  "kube_crbLister_List ns sel =
     faultSum (CrbLister_List ns sel)
       (\<lambda>w. (Inr (filter (\<lambda>x. inNamespace ns x \<and> Matches sel (Labels x)) (kClusterRoleBindings w)), w))"

definition kube_crbClient_Get :: "string \<Rightarrow> Kube \<Rightarrow> (error + ClusterRoleBinding) \<times> Kube" where
  "kube_crbClient_Get name =
     faultSum (CrbClient_Get name) (\<lambda>w. (getObject [] name (kClusterRoleBindings w), w))"

definition kube_crbClient_Update :: "ClusterRoleBinding \<Rightarrow> Kube \<Rightarrow> (error + ClusterRoleBinding) \<times> Kube" where
  "kube_crbClient_Update crb =
     faultSum (CrbClient_Update crb)
       (\<lambda>w. case getObject (Namespace crb) (Name crb) (kClusterRoleBindings w) of
               Inl e \<Rightarrow> (Inl e, w)
             | Inr old \<Rightarrow> (Inr crb, w\<lparr>kClusterRoleBindings := putObject crb (kClusterRoleBindings w)\<rparr>))"

definition kube_crtbClient_GetNamespaced ::
  "string \<Rightarrow> string \<Rightarrow> Kube \<Rightarrow> (error + ClusterRoleTemplateBinding) \<times> Kube" where
  "kube_crtbClient_GetNamespaced ns name =
     faultSum (CrtbClient_GetNamespaced ns name) (\<lambda>w. (getObject ns name (kCRTBs w), w))"

definition kube_crtbClient_Update ::
  "ClusterRoleTemplateBinding \<Rightarrow> Kube \<Rightarrow> (error + ClusterRoleTemplateBinding) \<times> Kube" where
  "kube_crtbClient_Update crtb =
     faultSum (CrtbClient_Update crtb)
       (\<lambda>w. case getObject (Namespace crtb) (Name crtb) (kCRTBs w) of
               Inl e \<Rightarrow> (Inl e, w)
             | Inr old \<Rightarrow> (Inr crtb, w\<lparr>kCRTBs := putObject crtb (kCRTBs w)\<rparr>))"

text \<open>
  The manager's methods are not part of this development. Here the role check looks the
  template up in a table (not found when it is missing), and the others succeed unless a
  fault is planted.
\<close>

definition kube_mgr_checkReferencedRoles :: "string \<Rightarrow> string \<Rightarrow> nat \<Rightarrow> Kube \<Rightarrow> (error + bool) \<times> Kube" where
  "kube_mgr_checkReferencedRoles rt ctx depth =
     faultSum (Mgr_checkReferencedRoles rt ctx depth)
       (\<lambda>w. (case map_of (kRoleTemplates w) rt of None \<Rightarrow> Inl (notFound rt) | Some b \<Rightarrow> Inr b, w))"

definition userSubject :: "ClusterRoleTemplateBinding \<Rightarrow> error + Subject" where
  "userSubject b =
     (if UserName b \<noteq> [] then Inr \<lparr>Kind = ''User'', SubjectName = UserName b, APIGroup = []\<rparr>
      else if GroupPrincipalName b \<noteq> [] then
        Inr \<lparr>Kind = ''Group'', SubjectName = GroupPrincipalName b, APIGroup = []\<rparr>
      else if GroupName b \<noteq> [] then
        Inr \<lparr>Kind = ''Group'', SubjectName = GroupName b, APIGroup = []\<rparr>
      else Inl (Errorf ''no subject''))"

definition namespaceAndName :: "ObjectMeta \<Rightarrow> string" where
  "namespaceAndName m = Namespace m @ ''_'' @ Name m"

definition kubeLifecycle :: "(ObjectMeta \<Rightarrow> string) \<Rightarrow> Kube crtbLifecycle" where
  "kubeLifecycle label =
     \<lparr>mgr_checkReferencedRoles = kube_mgr_checkReferencedRoles,
      mgr_ensureClusterMembershipBinding =
        (\<lambda>role key cluster owner subject.
           faultOpt (Mgr_ensureClusterMembershipBinding role key cluster owner subject) (\<lambda>w. (None, w))),
      mgr_grantManagementPlanePrivileges =
        (\<lambda>rt resources subject b.
           faultOpt (Mgr_grantManagementPlanePrivileges rt subject) (\<lambda>w. (None, w))),
      mgr_grantManagementClusterScopedPrivilegesInProjectNamespace =
        (\<lambda>rt project resources subject b.
           faultOpt (Mgr_grantManagementClusterScopedPrivilegesInProjectNamespace rt project subject)
             (\<lambda>w. (None, w))),
      mgr_reconcileClusterMembershipBindingForDelete =
        (\<lambda>role key. faultOpt (Mgr_reconcileClusterMembershipBindingForDelete role key) (\<lambda>w. (None, w))),
      mgr_removeAuthV2Permissions =
        (\<lambda>ident b. faultOpt (Mgr_removeAuthV2Permissions ident b) (\<lambda>w. (None, w))),
      clusterLister_Get = kube_clusterLister_Get,
      userMGR_EnsureUser = kube_userMGR_EnsureUser,
      userLister_Get = kube_userLister_Get,
      projectLister_List = kube_projectLister_List,
      rbLister_List = kube_rbLister_List,
      rbClient_GetNamespaced = kube_rbClient_GetNamespaced,
      rbClient_Update = kube_rbClient_Update,
      rbClient_DeleteNamespaced = kube_rbClient_DeleteNamespaced,
      crbLister_List = kube_crbLister_List,
      crbClient_Get = kube_crbClient_Get,
      crbClient_Update = kube_crbClient_Update,
      crtbClient_GetNamespaced = kube_crtbClient_GetNamespaced,
      crtbClient_Update = kube_crtbClient_Update,
      pkgrbac_GetRTBLabel = label,
      pkgrbac_BuildSubjectFromRTB = userSubject,
      getLabelRequirements = (\<lambda>m. Inr []),
      clusterContext = ''cluster'',
      projectManagementPlaneResources = [(''apps'', ''project.cattle.io'')],
      CRTBRoleBindingID = ''crtb''\<rparr>"

text \<open>An empty store, and constructors for the objects of the examples.\<close>

definition emptyKube :: Kube where
  "emptyKube = \<lparr>kUsers = [], kClusters = [], kProjects = [], kRoleBindings = [],
                kClusterRoleBindings = [], kCRTBs = [], kRoleTemplates = [], kFaults = []\<rparr>"

definition mkMeta :: "string \<Rightarrow> string \<Rightarrow> (string \<times> string) list \<Rightarrow> ObjectMeta" where
  "mkMeta ns name ls = \<lparr>Name = name, Namespace = ns, UID = ''uid-'' @ name, Labels = Some ls,
                        Annotations = None, DeletionTimestamp = None\<rparr>"

definition mkCRTB :: "string \<Rightarrow> string \<Rightarrow> string \<Rightarrow> string \<Rightarrow> ClusterRoleTemplateBinding" where
  "mkCRTB ns name userName pid =
     \<lparr>Name = name, Namespace = ns, UID = ''uid-'' @ name, Labels = None, Annotations = None,
      DeletionTimestamp = None, UserName = userName, UserPrincipalName = pid,
      GroupName = [], GroupPrincipalName = [], ClusterName = ns,
      RoleTemplateName = ''cluster-owner''\<rparr>"

section \<open>The token store\<close>

record RancherToken = ObjectMeta +
  Spec_UserID :: string
  Spec_ClusterName :: string
  Spec_TTL :: string
  Spec_Enabled :: string
  Status_PlaintextToken :: string
  Status_HashedToken :: string

text \<open>A secret; the byte slices of \<open>Data\<close> are strings.\<close>

record Secret = ObjectMeta +
  StringData :: gomap
  Data :: gomap

record UserInfo =
  GetName :: string
  GetUID :: string
  GetGroups :: "string list"

record SubjectAccessReview =
  Spec_User :: string
  Spec_Groups :: "string list"
  Spec_UID :: string
  Spec_Verb :: string
  Spec_Resource :: string
  Spec_Group :: string
  Status_Allowed :: bool

definition tokenNamespace :: string where
  "tokenNamespace = ''cattle-token-data''"

datatype tokenCall =
    Randomtoken_Generate
  | Hashers_CreateHash string
  | Sar_Create SubjectAccessReview
  | SecretClient_Create Secret
  | SecretClient_Update Secret
  | SecretClient_Delete string string
  | SecretCache_Get string string
  | SecretCache_List string

text \<open>
  The struct \<open>TokenStore\<close>, with the two library functions it calls
  (\<open>randomtoken.Generate\<close> and the hasher's \<open>CreateHash\<close>) as parameters.
\<close>

record 'w TokenStore =
  secretClient_Create :: "Secret \<Rightarrow> 'w \<Rightarrow> (error + Secret) \<times> 'w"
  secretClient_Update :: "Secret \<Rightarrow> 'w \<Rightarrow> (error + Secret) \<times> 'w"
  secretClient_Delete :: "string \<Rightarrow> string \<Rightarrow> 'w \<Rightarrow> error option \<times> 'w"
  secretCache_Get :: "string \<Rightarrow> string \<Rightarrow> 'w \<Rightarrow> (error + Secret) \<times> 'w"
  secretCache_List :: "string \<Rightarrow> 'w \<Rightarrow> (error + Secret list) \<times> 'w"
  sar_Create :: "SubjectAccessReview \<Rightarrow> 'w \<Rightarrow> (error + SubjectAccessReview) \<times> 'w"
  randomtoken_Generate :: "'w \<Rightarrow> (error + string) \<times> 'w"
  hashers_CreateHash :: "string \<Rightarrow> 'w \<Rightarrow> (error + string) \<times> 'w"

definition emptyMeta :: ObjectMeta where
  "emptyMeta = \<lparr>Name = [], Namespace = [], UID = [], Labels = None, Annotations = None,
                DeletionTimestamp = None\<rparr>"

definition secretFromToken :: "RancherToken \<Rightarrow> Secret" where
  "secretFromToken token =
     (let secret = ObjectMeta.extend (emptyMeta\<lparr>Namespace := tokenNamespace, Name := Name token\<rparr>)
                     (Secret.fields (Some []) (Some []));
          secret = secret\<lparr>StringData := mapSet (StringData secret) ''userID'' (Spec_UserID token)\<rparr>;
          secret = secret\<lparr>StringData := mapSet (StringData secret) ''clusterName'' (Spec_ClusterName token)\<rparr>;
          secret = secret\<lparr>StringData := mapSet (StringData secret) ''ttl'' (Spec_TTL token)\<rparr>;
          secret = secret\<lparr>StringData := mapSet (StringData secret) ''enabled'' (Spec_Enabled token)\<rparr>;
          secret = secret\<lparr>StringData := mapSet (StringData secret) ''hashedToken'' (Status_HashedToken token)\<rparr>
      in secret)"

definition tokenFromSecret :: "Secret \<Rightarrow> RancherToken" where
  "tokenFromSecret secret =
     ObjectMeta.extend (emptyMeta\<lparr>Name := Name secret\<rparr>)
       (RancherToken.fields
          (mapGet (Data secret) ''userID'')
          (mapGet (Data secret) ''clusterName'')
          (mapGet (Data secret) ''ttl'')
          (mapGet (Data secret) ''enabled'')
          []
          (mapGet (Data secret) ''hashedToken''))"

text \<open>The access review that \<open>userHasFullPermissions\<close> sends: every verb on the tokens.\<close>

definition fullPermissionsReview :: "UserInfo \<Rightarrow> SubjectAccessReview" where
  "fullPermissionsReview user =
     \<lparr>Spec_User = GetName user, Spec_Groups = GetGroups user, Spec_UID = GetUID user,
      Spec_Verb = ''*'', Spec_Resource = ''ranchertokens'', Spec_Group = ''ext.cattle.io'',
      Status_Allowed = False\<rparr>"

definition userHasFullPermissions ::
  "'w TokenStore \<Rightarrow> UserInfo \<Rightarrow> ('w, tokenCall) st \<Rightarrow> (error + bool) \<times> ('w, tokenCall) st" where
  "userHasFullPermissions t user s =
     (let sar = fullPermissionsReview user in
      case invoke (Sar_Create sar) (sar_Create t sar) s of
        (Inl err, s') \<Rightarrow> (Inl (Wrapf ''uanble to create SAR: '' err), s')
      | (Inr sar', s') \<Rightarrow> (Inr (Status_Allowed sar'), s'))"

text \<open>
  The block that \<open>Create\<close>, \<open>Update\<close>, \<open>Get\<close> and \<open>Delete\<close> each repeat: a caller acting
  on another user's token needs full permissions.
\<close>

definition checkOtherUser ::
  "'w TokenStore \<Rightarrow> UserInfo \<Rightarrow> string \<Rightarrow> ('w, tokenCall) st \<Rightarrow> error option \<times> ('w, tokenCall) st" where
  "checkOtherUser t userInfo userID s =
     (if userID \<noteq> GetName userInfo then
        (case userHasFullPermissions t userInfo s of
           (Inl err, s') \<Rightarrow> (Some (Wrapf ''unable to check if user has * on tokens: '' err), s')
         | (Inr authed, s') \<Rightarrow>
             if \<not> authed then
               (Some (Errorf (''can't create token for other user '' @ GetName userInfo
                  @ '' since user '' @ userID @ '' doesn't have * on ranchertokens'')), s')
             else (None, s'))
      else (None, s))"

text \<open>The first block of \<open>Create\<close>: a value and its hash, when the token carries none.\<close>

definition generateTokenValue ::
  "'w TokenStore \<Rightarrow> RancherToken \<Rightarrow> ('w, tokenCall) st \<Rightarrow> (error + RancherToken) \<times> ('w, tokenCall) st" where
  "generateTokenValue t token s =
     (if Status_PlaintextToken token = [] then
        (case invoke Randomtoken_Generate (randomtoken_Generate t) s of
           (Inl err, s1) \<Rightarrow> (Inl (Wrapf ''unable to generate token value: '' err), s1)
         | (Inr tokenValue, s1) \<Rightarrow>
            (case invoke (Hashers_CreateHash tokenValue) (hashers_CreateHash t tokenValue) s1 of
               (Inl err, s2) \<Rightarrow> (Inl (Wrapf ''unable to hash token value: '' err), s2)
             | (Inr hashedValue, s2) \<Rightarrow>
                 (Inr (token\<lparr>Status_PlaintextToken := tokenValue,
                             Status_HashedToken := hashedValue\<rparr>), s2)))
      else (Inr token, s))"

definition TokenStore_Create ::
  "'w TokenStore \<Rightarrow> UserInfo \<Rightarrow> RancherToken \<Rightarrow> ('w, tokenCall) st
     \<Rightarrow> (RancherToken option \<times> error option) \<times> ('w, tokenCall) st" where
  "TokenStore_Create t userInfo token0 s =
     (case generateTokenValue t token0 s of
        (Inl err, s1) \<Rightarrow> ((None, Some err), s1)
      | (Inr token, s1) \<Rightarrow>
         (case checkOtherUser t userInfo (Spec_UserID token) s1 of
            (Some err, s2) \<Rightarrow> ((None, Some err), s2)
          | (None, s2) \<Rightarrow>
             (let secret = secretFromToken token in
              case invoke (SecretClient_Create secret) (secretClient_Create t secret) s2 of
                (Inl err, s3) \<Rightarrow> ((None, Some (Wrapf ''unable to create secret for token: '' err)), s3)
              | (Inr created, s3) \<Rightarrow> ((Some (token\<lparr>Status_HashedToken := []\<rparr>), None), s3))))"

definition TokenStore_Update ::
  "'w TokenStore \<Rightarrow> UserInfo \<Rightarrow> RancherToken \<Rightarrow> ('w, tokenCall) st
     \<Rightarrow> (RancherToken option \<times> error option) \<times> ('w, tokenCall) st" where
  "TokenStore_Update t userInfo token s =
     (case checkOtherUser t userInfo (Spec_UserID token) s of
        (Some err, s1) \<Rightarrow> ((None, Some err), s1)
      | (None, s1) \<Rightarrow>
         (case invoke (SecretCache_Get (Namespace token) (Name token))
                 (secretCache_Get t (Namespace token) (Name token)) s1 of
            (Inl err, s2) \<Rightarrow>
              ((None, Some (Wrapf (''unable to get current token '' @ Name token @ '': '') err)), s2)
          | (Inr currentSecret, s2) \<Rightarrow>
             (let currentToken = tokenFromSecret currentSecret;
                  token = token\<lparr>Status_HashedToken := Status_HashedToken currentToken\<rparr>;
                  token = token\<lparr>Status_PlaintextToken := []\<rparr>;
                  secret = secretFromToken token in
              case invoke (SecretClient_Update secret) (secretClient_Update t secret) s2 of
                (Inl err, s3) \<Rightarrow>
                  ((None, Some (Wrapf (''unable to update token '' @ Name token @ '': '') err)), s3)
              | (Inr newSecret, s3) \<Rightarrow>
                 (let newToken = tokenFromSecret newSecret;
                      newToken = newToken\<lparr>Status_HashedToken := []\<rparr>;
                      newToken = newToken\<lparr>Status_PlaintextToken := []\<rparr>
                  in ((Some newToken, None), s3)))))"

definition TokenStore_Get ::
  "'w TokenStore \<Rightarrow> UserInfo \<Rightarrow> string \<Rightarrow> ('w, tokenCall) st
     \<Rightarrow> (RancherToken option \<times> error option) \<times> ('w, tokenCall) st" where
  "TokenStore_Get t userInfo name s =
     (case invoke (SecretCache_Get tokenNamespace name) (secretCache_Get t tokenNamespace name) s of
        (Inl err, s1) \<Rightarrow> ((None, Some (Wrapf (''unable to get token '' @ name @ '': '') err)), s1)
      | (Inr currentSecret, s1) \<Rightarrow>
         (let token = tokenFromSecret currentSecret in
          case checkOtherUser t userInfo (Spec_UserID token) s1 of
            (Some err, s2) \<Rightarrow> ((None, Some err), s2)
          | (None, s2) \<Rightarrow>
             (let token = token\<lparr>Status_HashedToken := []\<rparr>;
                  token = token\<lparr>Status_PlaintextToken := []\<rparr>
              in ((None, None), s2))))"

text \<open>The loop of \<open>List\<close> over the secrets.\<close>

fun listTokens :: "bool \<Rightarrow> UserInfo \<Rightarrow> Secret list \<Rightarrow> RancherToken list \<Rightarrow> RancherToken list" where
  "listTokens authed userInfo [] tokens = tokens"
| "listTokens authed userInfo (secret # secrets) tokens =
     (let token = tokenFromSecret secret in
      if \<not> authed \<and> Spec_UserID token \<noteq> GetName userInfo
      then listTokens authed userInfo secrets tokens
      else listTokens authed userInfo secrets (tokens @ [token]))"

definition TokenStore_List ::
  "'w TokenStore \<Rightarrow> UserInfo \<Rightarrow> ('w, tokenCall) st
     \<Rightarrow> (RancherToken list option \<times> error option) \<times> ('w, tokenCall) st" where
  "TokenStore_List t userInfo s =
     (case invoke (SecretCache_List tokenNamespace) (secretCache_List t tokenNamespace) s of
        (Inl err, s1) \<Rightarrow> ((None, Some (Wrapf ''unable to list tokens: '' err)), s1)
      | (Inr secrets, s1) \<Rightarrow>
         (case userHasFullPermissions t userInfo s1 of
            (Inl err, s2) \<Rightarrow>
              ((None, Some (Wrapf ''unable to check if user has * on tokens: '' err)), s2)
          | (Inr authed, s2) \<Rightarrow> ((Some (listTokens authed userInfo secrets []), None), s2)))"

definition TokenStore_Delete ::
  "'w TokenStore \<Rightarrow> UserInfo \<Rightarrow> string \<Rightarrow> ('w, tokenCall) st
     \<Rightarrow> error option \<times> ('w, tokenCall) st" where
  "TokenStore_Delete t userInfo name s =
     (case invoke (SecretCache_Get tokenNamespace name) (secretCache_Get t tokenNamespace name) s of
        (Inl err, s1) \<Rightarrow> (Some (Wrapf (''unable to confirm secret existence '' @ name @ '': '') err), s1)
      | (Inr secret, s1) \<Rightarrow>
         (let token = tokenFromSecret secret in
          case checkOtherUser t userInfo (Spec_UserID token) s1 of
            (Some err, s2) \<Rightarrow> (Some err, s2)
          | (None, s2) \<Rightarrow>
             (case invoke (SecretClient_Delete tokenNamespace name)
                     (secretClient_Delete t tokenNamespace name) s2 of
                (Some err, s3) \<Rightarrow> (Some (Wrapf (''unable to delete secret '' @ name @ '': '') err), s3)
              | (None, s3) \<Rightarrow> (None, s3))))"

subsection \<open>Secrets held in memory\<close>

text \<open>
  A stand-in for the secret client, its cache and the access review: the secrets are a
  list, a written secret gets its \<open>StringData\<close> as \<open>Data\<close> (as the API server does),
  the users of \<open>twAdmins\<close> are allowed everything, \<open>Generate\<close> hands out the values of
  \<open>twRandom\<close> in turn, and the hash of a value is the value reversed behind a prefix.
\<close>

record TokenWorld =
  twSecrets :: "Secret list"
  twAdmins :: "string list"
  twRandom :: "string list"

definition persisted :: "Secret \<Rightarrow> Secret" where
  "persisted sec = sec\<lparr>Data := StringData sec, StringData := None\<rparr>"

definition memTokenStore :: "TokenWorld TokenStore" where
  "memTokenStore =
     \<lparr>secretClient_Create =
        (\<lambda>sec w. case getObject (Namespace sec) (Name sec) (twSecrets w) of
                    Inr old \<Rightarrow> (Inl (StatusError StatusReasonAlreadyExists 409 ''already exists''), w)
                  | Inl e \<Rightarrow> (Inr (persisted sec), w\<lparr>twSecrets := twSecrets w @ [persisted sec]\<rparr>)),
      secretClient_Update =
        (\<lambda>sec w. case getObject (Namespace sec) (Name sec) (twSecrets w) of
                    Inl e \<Rightarrow> (Inl e, w)
                  | Inr old \<Rightarrow>
                      (Inr (persisted sec), w\<lparr>twSecrets := putObject (persisted sec) (twSecrets w)\<rparr>)),
      secretClient_Delete =
        (\<lambda>ns name w. case getObject ns name (twSecrets w) of
                        Inl e \<Rightarrow> (Some e, w)
                      | Inr old \<Rightarrow>
                          (None, w\<lparr>twSecrets := filter (\<lambda>x. \<not> sameKey ns name x) (twSecrets w)\<rparr>)),
      secretCache_Get = (\<lambda>ns name w. (getObject ns name (twSecrets w), w)),
      secretCache_List = (\<lambda>ns w. (Inr (filter (inNamespace ns) (twSecrets w)), w)),
      sar_Create = (\<lambda>sar w. (Inr (sar\<lparr>Status_Allowed := (Spec_User sar \<in> set (twAdmins w))\<rparr>), w)),
      randomtoken_Generate =
        (\<lambda>w. case twRandom w of
                [] \<Rightarrow> (Inl (Errorf ''no entropy''), w)
              | v # vs \<Rightarrow> (Inr v, w\<lparr>twRandom := vs\<rparr>)),
      hashers_CreateHash = (\<lambda>v w. (Inr (''$hash$'' @ rev v), w))\<rparr>"

definition mkUser :: "string \<Rightarrow> UserInfo" where
  "mkUser name = \<lparr>GetName = name, GetUID = [], GetGroups = []\<rparr>"

definition mkToken :: "string \<Rightarrow> string \<Rightarrow> string \<Rightarrow> string \<Rightarrow> RancherToken" where
  "mkToken name userID plaintext hashed =
     ObjectMeta.extend (emptyMeta\<lparr>Name := name, Namespace := tokenNamespace\<rparr>)
       (RancherToken.fields userID ''local'' ''0'' ''true'' plaintext hashed)"

section \<open>The user activity store\<close>

subsection \<open>Times and durations\<close>

text \<open>
  A \<open>time.Time\<close> without monotonic reading (what \<open>UTC()\<close> returns): \<open>ext\<close> is the number
  of seconds since January 1 of year 1 as an \<open>int64\<close>, \<open>nsec\<close> the nanoseconds within the
  second, \<open>loc\<close> the name of the location. A \<open>time.Duration\<close> is an \<open>int64\<close> count of
  nanoseconds, and the Go \<open>int\<close> of the idle setting has 64 bits.
\<close>

record Time =
  ext :: "64 word"
  nsec :: int
  loc :: string

type_synonym Duration = "64 word"

definition Minute :: Duration where
  "Minute = 60000000000"

text \<open>\<open>Time.addSec\<close>: the sum saturates instead of wrapping.\<close>

definition addSec :: "64 word \<Rightarrow> 64 word \<Rightarrow> 64 word" where
  "addSec e d =
     (let sum = e + d in
      if (sint sum > sint e) = (sint d > 0) then sum
      else if sint d > 0 then 9223372036854775807
      else - 9223372036854775807)"

text \<open>\<open>Time.Add\<close>; the division and the remainder of Go truncate towards zero.\<close>

definition Time_Add :: "Time \<Rightarrow> Duration \<Rightarrow> Time" where
  "Time_Add t d =
     (let dsec = (word_of_int (sint d sdiv 1000000000) :: 64 word);
          ns = nsec t + sint d smod 1000000000 in
      if ns \<ge> 1000000000 then t\<lparr>nsec := ns - 1000000000, ext := addSec (ext t) (dsec + 1)\<rparr>
      else if ns < 0 then t\<lparr>nsec := ns + 1000000000, ext := addSec (ext t) (dsec - 1)\<rparr>
      else t\<lparr>nsec := ns, ext := addSec (ext t) dsec\<rparr>)"

definition UTC :: "Time \<Rightarrow> Time" where
  "UTC t = t\<lparr>loc := ''UTC''\<rparr>"

text \<open>The instant of a time, in nanoseconds since the start of year 1.\<close>

definition nanos :: "Time \<Rightarrow> int" where
  "nanos t = sint (ext t) * 1000000000 + nsec t"

subsection \<open>The store\<close>

record Token = ObjectMeta +
  UserID :: string
  LastIdleTimeout :: Time

record UserActivity = ObjectMeta +
  Spec_TokenId :: string
  Status_LastActivity :: string
  Status_CurrentTimeout :: string

datatype activityCall =
    TokenController_Get string
  | TokenController_Update Token
  | Time_Now
  | Settings_AuthUserSessionIdleTTLMinutes_GetInt

text \<open>
  The struct \<open>Store\<close>. \<open>setUserActivityName\<close> is a helper of the package whose
  source is not part of this development, and \<open>Time_String\<close> is the formatting of a time
  by the standard library; both are parameters, as are the clock and the setting read by
  \<open>Create\<close>.
\<close>

record 'w Store =
  tokenController_Get :: "string \<Rightarrow> 'w \<Rightarrow> (error + Token) \<times> 'w"
  tokenController_Update :: "Token \<Rightarrow> 'w \<Rightarrow> (error + Token) \<times> 'w"
  setUserActivityName :: "string \<Rightarrow> string \<Rightarrow> error + string"
  Time_String :: "Time \<Rightarrow> string"
  time_Now :: "'w \<Rightarrow> Time \<times> 'w"
  settings_AuthUserSessionIdleTTLMinutes_GetInt :: "'w \<Rightarrow> 64 word \<times> 'w"

definition Store_create ::
  "'w Store \<Rightarrow> UserActivity \<Rightarrow> Token \<Rightarrow> string \<Rightarrow> Time \<Rightarrow> 64 word
     \<Rightarrow> ('w, activityCall) st \<Rightarrow> (UserActivity option \<times> error option) \<times> ('w, activityCall) st" where
  "Store_create uas userActivity token user lastActivity authUserSessionIdleTTLMinutes s =
     (case setUserActivityName uas user (Name token) of
        Inl err \<Rightarrow> ((None, Some (ErrorfV ''failed to set useractivity name: '' err)), s)
      | Inr expectedName \<Rightarrow>
          if Name userActivity \<noteq> expectedName then
            ((None, Some (Errorf (''useractivity name mismatch: have '' @ Name userActivity
                @ '' - expected '' @ expectedName))), s)
          else if Name token \<noteq> Spec_TokenId userActivity then
            ((None, Some (Errorf (''token name mismatch: have '' @ Name token
                @ '' - expected '' @ Spec_TokenId userActivity))), s)
          else
            (let newIdleTimeout =
                   UTC (Time_Add lastActivity (Minute * authUserSessionIdleTTLMinutes));
                 token = token\<lparr>LastIdleTimeout := newIdleTimeout\<rparr>;
                 userActivity = userActivity\<lparr>Status_LastActivity := Time_String uas lastActivity\<rparr>;
                 userActivity = userActivity\<lparr>Status_CurrentTimeout := Time_String uas newIdleTimeout\<rparr>
             in case invoke (TokenController_Update token) (tokenController_Update uas token) s of
                  (Inl err, s') \<Rightarrow> ((None, Some (ErrorfV ''failed to update token: '' err)), s')
                | (Inr updated, s') \<Rightarrow> ((Some userActivity, None), s')))"

definition Store_Create ::
  "'w Store \<Rightarrow> UserActivity \<Rightarrow> ('w, activityCall) st
     \<Rightarrow> (UserActivity option \<times> error option) \<times> ('w, activityCall) st" where
  "Store_Create uas objUserActivity s =
     (case invoke (TokenController_Get (Spec_TokenId objUserActivity))
             (tokenController_Get uas (Spec_TokenId objUserActivity)) s of
        (Inl err, s1) \<Rightarrow>
          ((None, Some (ErrorfV (''failed to get token '' @ Spec_TokenId objUserActivity @ '': '') err)), s1)
      | (Inr token, s1) \<Rightarrow>
         (case invoke Time_Now (time_Now uas) s1 of
            (now, s2) \<Rightarrow>
             (case invoke Settings_AuthUserSessionIdleTTLMinutes_GetInt
                     (settings_AuthUserSessionIdleTTLMinutes_GetInt uas) s2 of
                (idleTimeout, s3) \<Rightarrow>
                  Store_create uas objUserActivity token (UserID token) (UTC now) idleTimeout s3)))"

subsection \<open>Tokens held in memory\<close>

text \<open>
  A stand-in for the token controller, with a name encoding (user, a colon, token) and a
  formatting of times that shows the seconds and the nanoseconds.
\<close>

record ActivityWorld =
  awTokens :: "Token list"
  awClock :: Time
  awIdleMinutes :: "64 word"

fun showNat :: "nat \<Rightarrow> nat \<Rightarrow> string" where
  "showNat 0 n = []"
| "showNat (Suc fuel) n =
     (if n < 10 then [char_of (48 + n)] else showNat fuel (n div 10) @ [char_of (48 + n mod 10)])"

definition showInt :: "int \<Rightarrow> string" where
  "showInt i = (if i < 0 then ''-'' @ showNat 40 (nat (- i)) else showNat 40 (nat i))"

definition memActivityStore :: "ActivityWorld Store" where
  "memActivityStore =
     \<lparr>tokenController_Get = (\<lambda>name w. (getObject [] name (awTokens w), w)),
      tokenController_Update =
        (\<lambda>tok w. case getObject (Namespace tok) (Name tok) (awTokens w) of
                    Inl e \<Rightarrow> (Inl e, w)
                  | Inr old \<Rightarrow> (Inr tok, w\<lparr>awTokens := putObject tok (awTokens w)\<rparr>)),
      setUserActivityName =
        (\<lambda>user tokenName. if user = [] \<or> tokenName = [] then Inl (Errorf ''empty name'')
                           else Inr (user @ '':'' @ tokenName)),
      Time_String = (\<lambda>t. showInt (sint (ext t)) @ ''.'' @ showInt (nsec t) @ '' '' @ loc t),
      time_Now = (\<lambda>w. (awClock w, w)),
      settings_AuthUserSessionIdleTTLMinutes_GetInt = (\<lambda>w. (awIdleMinutes w, w))\<rparr>"

definition mkTime :: "int \<Rightarrow> int \<Rightarrow> Time" where
  "mkTime seconds nanoseconds = \<lparr>ext = word_of_int seconds, nsec = nanoseconds, loc = ''UTC''\<rparr>"

definition mkActivityToken :: "string \<Rightarrow> string \<Rightarrow> Token" where
  "mkActivityToken name user =
     ObjectMeta.extend (emptyMeta\<lparr>Name := name\<rparr>) (Token.fields user (mkTime 0 0))"

definition mkUserActivity :: "string \<Rightarrow> string \<Rightarrow> UserActivity" where
  "mkUserActivity name tokenId =
     ObjectMeta.extend (emptyMeta\<lparr>Name := name\<rparr>) (UserActivity.fields tokenId [] [])"

section \<open>Ownership of derived role bindings\<close>

text \<open>
  A role binding carries the label \<open>k\<close> with value \<open>v\<close>; and, in the words of the
  specification, a role binding is one of those a binding's removal is to delete: it lives
  in the namespace named after a project of the binding's namespace, and it carries the
  binding's own key with the value \<open>crtb-in-project-binding-owner\<close>.
\<close>

definition carriesLabel :: "string \<Rightarrow> string \<Rightarrow> 'a ObjectMeta_scheme \<Rightarrow> bool" where
  "carriesLabel k v x = (mapHas (Labels x) k \<and> mapGet (Labels x) k = v)"

definition ownedInProject :: "Kube \<Rightarrow> ClusterRoleTemplateBinding \<Rightarrow> string \<Rightarrow> RoleBinding \<Rightarrow> bool" where
  "ownedInProject w b key x =
     ((\<exists>p \<in> set (kProjects w). Namespace p = Namespace b \<and> Namespace x = Name p)
      \<and> carriesLabel key CrtbInProjectBindingOwner x)"


section \<open>Batches\<close>

text \<open>
  The specification's reading of a batch: every item is attempted, in order, whatever the
  outcome of the items before it, and the outcomes are collected. \<open>errors_JoinAll\<close> is
  the error that joining the outcomes one after the other gives, as
  \<open>returnErr = errors.Join(returnErr, retryErr)\<close> does.
\<close>

fun attemptEach :: "('a \<Rightarrow> 's \<Rightarrow> error option \<times> 's) \<Rightarrow> 'a list \<Rightarrow> 's \<Rightarrow> error option list \<times> 's" where
  "attemptEach f [] s = ([], s)"
| "attemptEach f (x # xs) s =
     (case f x s of (e, s') \<Rightarrow> (case attemptEach f xs s' of (es, s'') \<Rightarrow> (e # es, s'')))"

definition errors_JoinAll :: "error option list \<Rightarrow> error option" where
  "errors_JoinAll outcomes = foldl (\<lambda>acc e. errors_Join [acc, e]) None outcomes"

text \<open>The calls on the client of the bindings themselves.\<close>

fun isCrtbClientCall :: "crtbCall \<Rightarrow> bool" where
  "isCrtbClientCall (CrtbClient_GetNamespaced ns name) = True"
| "isCrtbClientCall (CrtbClient_Update obj) = True"
| "isCrtbClientCall other = False"

text \<open>From \<open>s\<close> to \<open>s'\<close> the log grew by calls that all satisfy \<open>Q\<close>.\<close>

definition callsAppended :: "('c \<Rightarrow> bool) \<Rightarrow> ('w, 'c) st \<Rightarrow> ('w, 'c) st \<Rightarrow> bool" where
  "callsAppended Q s s' = (\<exists>ev. snd s' = snd s @ ev \<and> list_all Q ev)"

section \<open>Example objects\<close>

text \<open>The stores and objects on which the theorems below are instantiated.\<close>

definition alice :: User where
  "alice = \<lparr>Name = ''alice'', Namespace = [], UID = [], Labels = None, Annotations = None,
            DeletionTimestamp = None, PrincipalIDs = [''ID1'', ''local://alice'', ''x://alice'']\<rparr>"

definition oneCluster :: Kube where
  "oneCluster = emptyKube\<lparr>kClusters := [mkMeta [] ''c-1'' []]\<rparr>"

definition forbidden :: error where
  "forbidden = StatusError StatusReasonForbidden 403 ''roletemplates is forbidden''"

definition pageNotFound :: error where
  "pageNotFound = StatusError StatusReasonUnknown 404 ''404 page not found''"

definition aliceSecret :: Secret where
  "aliceSecret = persisted (secretFromToken (mkToken ''t1'' ''alice'' [] ''$hash$terces''))"

definition oneSecret :: TokenWorld where
  "oneSecret = \<lparr>twSecrets = [aliceSecret], twAdmins = [''admin''], twRandom = []\<rparr>"

definition migratedCRTB :: ClusterRoleTemplateBinding where
  "migratedCRTB = (mkCRTB ''c-1'' ''crtb1'' ''alice'' ''local://alice'')
                    \<lparr>Labels := Some [(RtbCrbRbLabelsUpdated, ''true'')]\<rparr>"

definition twoProjects :: Kube where
  "twoProjects = emptyKube\<lparr>kClusters := [mkMeta [] ''c-1'' []],
                           kRoleTemplates := [(''cluster-owner'', True)],
                           kProjects := [mkMeta ''c-1'' ''p-1'' [], mkMeta ''c-1'' ''p-2'' []]\<rparr>"

definition aliceCRTB :: ClusterRoleTemplateBinding where
  "aliceCRTB = mkCRTB ''c-1'' ''crtb1'' ''alice'' ''local://alice''"

definition aliceSubject :: Subject where
  "aliceSubject = \<lparr>Kind = ''User'', SubjectName = ''alice'', APIGroup = []\<rparr>"

definition grantFailsInFirstProject :: Kube where
  "grantFailsInFirstProject = twoProjects\<lparr>kFaults :=
      [(Mgr_grantManagementClusterScopedPrivilegesInProjectNamespace ''cluster-owner'' ''p-1'' aliceSubject,
        forbidden)]\<rparr>"


definition fourProjects :: Kube where
  "fourProjects = emptyKube\<lparr>kClusters := [mkMeta [] ''c-1'' []],
                            kRoleTemplates := [(''cluster-owner'', True)],
                            kProjects := [(mkMeta ''c-1'' ''p-0'' [])\<lparr>DeletionTimestamp := Some 1700000000\<rparr>,
                                          mkMeta ''c-1'' ''p-1'' [], mkMeta ''c-1'' ''p-2'' [],
                                          mkMeta ''c-1'' ''p-3'' []]\<rparr>"

definition grantFailsInThirdProject :: Kube where
  "grantFailsInThirdProject = fourProjects\<lparr>kFaults :=
      [(Mgr_grantManagementClusterScopedPrivilegesInProjectNamespace ''cluster-owner'' ''p-2'' aliceSubject,
        forbidden)]\<rparr>"

definition ownedBinding :: RoleBinding where
  "ownedBinding = mkMeta ''p-1'' ''rb-a'' [(''c-1_crtb1'', ''crtb-in-project-binding-owner'')]"

definition otherOwnersBinding :: RoleBinding where
  "otherOwnersBinding = mkMeta ''p-1'' ''rb-b'' [(''c-1_crtb2'', ''crtb-in-project-binding-owner'')]"

definition bindingElsewhere :: RoleBinding where
  "bindingElsewhere = mkMeta ''kube-system'' ''rb-a'' [(''c-1_crtb1'', ''crtb-in-project-binding-owner'')]"

definition threeBindings :: Kube where
  "threeBindings = twoProjects\<lparr>kRoleBindings := [ownedBinding, otherOwnersBinding, bindingElsewhere]\<rparr>"

definition legacyCRB :: ClusterRoleBinding where
  "legacyCRB = mkMeta [] ''crb-1'' [(''uid-crtb1'', ''memberhsip-binding-owner'')]"

definition legacyRB :: RoleBinding where
  "legacyRB = mkMeta ''p-1'' ''rb-legacy'' [(''uid-crtb1'', ''crtb-in-project-binding-owner'')]"

definition legacyKube :: Kube where
  "legacyKube = twoProjects\<lparr>kClusterRoleBindings := [legacyCRB], kRoleBindings := [legacyRB],
                            kCRTBs := [aliceCRTB]\<rparr>"

definition legacyKubeCrbFails :: Kube where
  "legacyKubeCrbFails = legacyKube\<lparr>kFaults := [(CrbClient_Get ''crb-1'', forbidden)]\<rparr>"

definition indexMissing :: error where
  "indexMissing = Errorf ''index with name namespace does not exist''"

definition legacyKubeListFails :: Kube where
  "legacyKubeListFails = legacyKube\<lparr>kFaults :=
      [(CrbClient_Get ''crb-1'', forbidden),
       (RbLister_List [] (Add (AsSelector [(''uid-crtb1'', CrtbInProjectBindingOwner)]) []), indexMissing)]\<rparr>"

definition conflict :: error where
  "conflict = StatusError StatusReasonConflict 409 ''the object has been modified''"

definition legacyKubeRbConflicts :: Kube where
  "legacyKubeRbConflicts = legacyKube\<lparr>kFaults :=
      replicate 5 (RbClient_GetNamespaced ''p-1'' ''rb-legacy'', conflict)\<rparr>"

definition relabelledCRB :: ClusterRoleBinding where
  "relabelledCRB = mkMeta [] ''crb-1''
     [(''uid-crtb1'', ''memberhsip-binding-owner''), (''c-1_crtb1'', ''membership-binding-owner''),
      (''auth.management.cattle.io/rtb-label-updated'', ''true'')]"

definition relabelledRB :: RoleBinding where
  "relabelledRB = mkMeta ''p-1'' ''rb-legacy''
     [(''uid-crtb1'', ''crtb-in-project-binding-owner''), (''c-1_crtb1'', ''crtb-in-project-binding-owner''),
      (''auth.management.cattle.io/rtb-label-updated'', ''true'')]"

definition legacyCRBSelector :: Selector where
  "legacyCRBSelector = Add (AsSelector [(''uid-crtb1'', MembershipBindingOwnerLegacy)]) []"

definition legacyRBSelector :: Selector where
  "legacyRBSelector = Add (AsSelector [(''uid-crtb1'', CrtbInProjectBindingOwner)]) []"

definition migratedKube :: Kube where
  "migratedKube = twoProjects\<lparr>kClusterRoleBindings := [relabelledCRB], kRoleBindings := [relabelledRB],
                              kCRTBs := [migratedCRTB]\<rparr>"

definition migrationCalls :: "crtbCall list" where
  "migrationCalls =
     [CrbLister_List [] legacyCRBSelector, CrbClient_Get ''crb-1'', CrbClient_Update relabelledCRB,
      RbLister_List [] legacyRBSelector, RbClient_GetNamespaced ''p-1'' ''rb-legacy'',
      RbClient_Update relabelledRB,
      CrtbClient_GetNamespaced ''c-1'' ''crtb1'', CrtbClient_Update migratedCRTB]"

definition activityToken :: Token where
  "activityToken = mkActivityToken ''token-1'' ''alice''"

definition activity :: UserActivity where
  "activity = mkUserActivity ''alice:token-1'' ''token-1''"

definition noon :: Time where
  "noon = mkTime 63800000000 0"

definition activityWorld :: ActivityWorld where
  "activityWorld = \<lparr>awTokens = [activityToken], awClock = noon, awIdleMinutes = 960\<rparr>"

definition wrappedTimeout :: Time where
  "wrappedTimeout = \<lparr>ext = 54576628006, nsec = 290448384, loc = ''UTC''\<rparr>"

definition leakyToken :: RancherToken where
  "leakyToken = mkToken ''t2'' ''alice'' ''s3cret'' ''s3cret''"

definition noSecrets :: TokenWorld where
  "noSecrets = \<lparr>twSecrets = [], twAdmins = [''admin''], twRandom = [''s3cret'']\<rparr>"

definition leakedSecrets :: TokenWorld where
  "leakedSecrets = noSecrets\<lparr>twSecrets := [persisted (secretFromToken leakyToken)]\<rparr>"

section \<open>Evaluation rules\<close>

lemmas kube_simps =
  kubeLifecycle_def kube_userMGR_EnsureUser_def kube_userLister_Get_def faultSum_def faultOpt_def
  emptyKube_def mkCRTB_def getObject_def sameKey_def mapGet_def HasSuffix_def alice_def
  kube_clusterLister_Get_def kube_mgr_checkReferencedRoles_def notFound_def mkMeta_def
  kube_projectLister_List_def inNamespace_def NamespaceAll_def userSubject_def namespaceAndName_def
  metaOf_def ObjectMeta.truncate_def ToLower_def toLowerChar_def oneCluster_def forbidden_def
  twoProjects_def aliceCRTB_def aliceSubject_def grantFailsInFirstProject_def
  kube_rbLister_List_def kube_rbClient_DeleteNamespaced_def Matches_def AsSelector_def mapHas_def
  CrtbInProjectBindingOwner_def ctrbMGMTController_def logrus_def invoke_def
  ownedBinding_def otherOwnersBinding_def bindingElsewhere_def threeBindings_def
  kube_crbLister_List_def kube_crbClient_Get_def kube_crbClient_Update_def
  kube_rbClient_GetNamespaced_def kube_rbClient_Update_def
  kube_crtbClient_GetNamespaced_def kube_crtbClient_Update_def putObject_def mapSet_def Add_def
  MembershipBindingOwnerLegacy_def MembershipBindingOwner_def rtbLabelUpdated_def
  RtbCrbRbLabelsUpdated_def RetryOnConflict_def DefaultRetry_def eval_nat_numeral IsConflict_def
  IsNotFound_def reasonAndCodeForError_def knownReasons_def StatusReasonUnknown_def
  StatusReasonNotFound_def StatusReasonConflict_def StatusReasonForbidden_def
  StatusReasonAlreadyExists_def pageNotFound_def indexMissing_def legacyKubeListFails_def fourProjects_def grantFailsInThirdProject_def
  updateCRBLabels_def updateRBLabels_def updateCRTBLabel_def errors_Join_def List.map_filter_def
  errors_JoinAll_def legacyCRB_def legacyRB_def legacyKube_def legacyKubeCrbFails_def conflict_def
  legacyKubeRbConflicts_def relabelledCRB_def relabelledRB_def legacyCRBSelector_def
  legacyRBSelector_def migratedKube_def migrationCalls_def migratedCRTB_def

lemmas token_simps =
  memTokenStore_def oneSecret_def aliceSecret_def persisted_def secretFromToken_def tokenFromSecret_def
  mkToken_def mkUser_def emptyMeta_def tokenNamespace_def getObject_def sameKey_def mapSet_def mapGet_def
  fullPermissionsReview_def ObjectMeta.extend_def Secret.fields_def RancherToken.fields_def
  putObject_def inNamespace_def NamespaceAll_def
  leakyToken_def noSecrets_def leakedSecrets_def

lemmas activity_simps =
  memActivityStore_def activityToken_def activity_def noon_def activityWorld_def wrappedTimeout_def
  mkActivityToken_def mkUserActivity_def mkTime_def emptyMeta_def getObject_def sameKey_def
  putObject_def ObjectMeta.extend_def Token.fields_def UserActivity.fields_def

section \<open>Subject resolution\<close>

lemma scanPrincipalIDs_find:
  "scanPrincipalIDs ps b =
     (case find (\<lambda>p. HasSuffix p (UserName b)) ps of None \<Rightarrow> b | Some p \<Rightarrow> b\<lparr>UserPrincipalName := p\<rparr>)"
  by (induction ps) simp_all

text \<open>
  C3. \<open>reconcileSubject\<close> has four cases. A group binding, or a binding with both the
  user name and the user principal name, comes back unchanged and no call is made. With
  only the principal name, \<open>EnsureUser\<close> is called exactly once (with the display-name
  annotation) and the name of the user it returns is written into the binding; its error
  is returned with the binding untouched. With only the user name, the user is fetched and
  the first of its principal IDs that has the name as a suffix is written as the principal
  name (none when no ID matches). With none of the four fields set, the call fails with
  the "has no subject" error and returns no binding.
\<close>

theorem reconcileSubject_contract:
  "(GroupName b \<noteq> [] \<or> GroupPrincipalName b \<noteq> [] \<or> (UserPrincipalName b \<noteq> [] \<and> UserName b \<noteq> [])
      \<longrightarrow> reconcileSubject c b (w, tr) = ((Some b, None), (w, tr)))
   \<and> (GroupName b = [] \<and> GroupPrincipalName b = [] \<and> UserPrincipalName b \<noteq> [] \<and> UserName b = []
      \<longrightarrow> (let displayName = mapGet (Annotations b) ''auth.cattle.io/principal-display-name'';
               r = userMGR_EnsureUser c (UserPrincipalName b) displayName w in
           reconcileSubject c b (w, tr) =
             ((case fst r of Inl err \<Rightarrow> (Some b, Some err)
                | Inr user \<Rightarrow> (Some (b\<lparr>UserName := Name user\<rparr>), None)),
              (snd r, tr @ [UserMGR_EnsureUser (UserPrincipalName b) displayName]))))
   \<and> (GroupName b = [] \<and> GroupPrincipalName b = [] \<and> UserPrincipalName b = [] \<and> UserName b \<noteq> []
      \<longrightarrow> (let r = userLister_Get c [] (UserName b) w in
           reconcileSubject c b (w, tr) =
             ((case fst r of Inl err \<Rightarrow> (Some b, Some err)
                | Inr u \<Rightarrow>
                   (Some (case find (\<lambda>p. HasSuffix p (UserName b)) (PrincipalIDs u) of
                            None \<Rightarrow> b | Some p \<Rightarrow> b\<lparr>UserPrincipalName := p\<rparr>), None)),
              (snd r, tr @ [UserLister_Get [] (UserName b)]))))
   \<and> (GroupName b = [] \<and> GroupPrincipalName b = [] \<and> UserPrincipalName b = [] \<and> UserName b = []
      \<longrightarrow> reconcileSubject c b (w, tr) =
            ((None, Some (Errorf (''ClusterRoleTemplateBinding '' @ Name b @ '' has no subject''))), (w, tr)))"
  by (auto simp: reconcileSubject_def invoke_def Let_def scanPrincipalIDs_find split: prod.splits sum.splits)

theorem reconcileSubject_contract_witness:
  "reconcileSubject (kubeLifecycle namespaceAndName) (mkCRTB ''c-1'' ''crtb1'' ''alice'' ''local://alice'')
       (emptyKube, [])
     = ((Some (mkCRTB ''c-1'' ''crtb1'' ''alice'' ''local://alice''), None), (emptyKube, []))
   \<and> fst (reconcileSubject (kubeLifecycle namespaceAndName) (mkCRTB ''c-1'' ''crtb1'' [] ''local://alice'')
       (emptyKube, []))
     = (Some (mkCRTB ''c-1'' ''crtb1'' ''u-local://alice'' ''local://alice''), None)
   \<and> snd (snd (reconcileSubject (kubeLifecycle namespaceAndName) (mkCRTB ''c-1'' ''crtb1'' [] ''local://alice'')
       (emptyKube, [])))
     = [UserMGR_EnsureUser ''local://alice'' []]
   \<and> fst (reconcileSubject (kubeLifecycle namespaceAndName) (mkCRTB ''c-1'' ''crtb1'' ''alice'' [])
       (emptyKube\<lparr>kUsers := [alice]\<rparr>, []))
     = (Some (mkCRTB ''c-1'' ''crtb1'' ''alice'' ''local://alice''), None)
   \<and> fst (reconcileSubject (kubeLifecycle namespaceAndName) (mkCRTB ''c-1'' ''crtb1'' [] [])
       (emptyKube, []))
     = (None, Some (Errorf ''ClusterRoleTemplateBinding crtb1 has no subject''))"
  using reconcileSubject_contract [of "mkCRTB ''c-1'' ''crtb1'' ''alice'' ''local://alice''"
          "kubeLifecycle namespaceAndName" emptyKube "[]"]
        reconcileSubject_contract [of "mkCRTB ''c-1'' ''crtb1'' [] ''local://alice''"
          "kubeLifecycle namespaceAndName" emptyKube "[]"]
        reconcileSubject_contract [of "mkCRTB ''c-1'' ''crtb1'' ''alice'' []"
          "kubeLifecycle namespaceAndName" "emptyKube\<lparr>kUsers := [alice]\<rparr>" "[]"]
        reconcileSubject_contract [of "mkCRTB ''c-1'' ''crtb1'' [] []"
          "kubeLifecycle namespaceAndName" emptyKube "[]"]
  by (simp add: kube_simps Let_def)


section \<open>Replication into the projects\<close>

lemma grantInProjects_append_failure:
  assumes "grantInProjects c b subject pre s = (None, s1)"
    and "DeletionTimestamp p = None"
    and "mgr_grantManagementClusterScopedPrivilegesInProjectNamespace c (RoleTemplateName b) (Name p)
           (projectManagementPlaneResources c) subject b (fst s1) = (Some err, w2)"
  shows "grantInProjects c b subject (pre @ p # post) s =
           (Some err, (w2, snd s1 @ [Mgr_grantManagementClusterScopedPrivilegesInProjectNamespace
                                       (RoleTemplateName b) (Name p) subject]))"
  using assms
proof (induction pre arbitrary: s)
  case Nil
  then show ?case by (simp add: invoke_def)
next
  case (Cons q pre)
  show ?case
  proof (cases "DeletionTimestamp q \<noteq> None")
    case True
    with Cons show ?thesis by simp
  next
    case False
    with Cons.prems obtain s' where
      step: "invoke (Mgr_grantManagementClusterScopedPrivilegesInProjectNamespace
                        (RoleTemplateName b) (Name q) subject)
                (mgr_grantManagementClusterScopedPrivilegesInProjectNamespace c
                   (RoleTemplateName b) (Name q) (projectManagementPlaneResources c)
                   subject b) s = (None, s')"
      and rest: "grantInProjects c b subject pre s' = (None, s1)"
      by (auto split: prod.splits option.splits)
    from Cons.IH [OF rest Cons.prems(2) Cons.prems(3)] step False show ?thesis by simp
  qed
qed

text \<open>
  C1, as the code has it. The loop of \<open>reconcileBindings\<close> over the projects of the
  binding's namespace stops at the first project in which granting the privileges fails:
  when the loop has gone through the projects before \<open>p\<close> without an error and the grant
  for \<open>p\<close> fails, \<open>reconcileBindings\<close> returns that error at once, the last call it made
  is the failed grant, and no grant is attempted for the projects after \<open>p\<close>; nothing is
  aggregated. (The claim says the replication continues with the remaining projects; the
  counterexample below shows it does not.)
\<close>

theorem replication_stops_at_first_failure:
  assumes "\<not> (UserName b = [] \<and> GroupPrincipalName b = [] \<and> GroupName b = [])"
    and "clusterLister_Get c [] (ClusterName b) w = (Inr (Some cluster), w1)"
    and "mgr_checkReferencedRoles c (RoleTemplateName b) (clusterContext c) 0 w1 = (Inr isOwnerRole, w2)"
    and "pkgrbac_BuildSubjectFromRTB c b = Inr subject"
    and "mgr_ensureClusterMembershipBinding c
           (if isOwnerRole then ToLower (ClusterName b @ ''-clusterowner'')
            else ToLower (ClusterName b @ ''-clustermember''))
           (pkgrbac_GetRTBLabel c (metaOf b)) cluster isOwnerRole subject w2 = (None, w3)"
    and "mgr_grantManagementPlanePrivileges c (RoleTemplateName b) clusterManagementPlaneResources
           subject b w3 = (None, w4)"
    and "projectLister_List c (Namespace b) w4 = (Inr (pre @ p # post), w5)"
    and "grantInProjects c b subject pre
           (w5, tr @ [ClusterLister_Get [] (ClusterName b),
                      Mgr_checkReferencedRoles (RoleTemplateName b) (clusterContext c) 0,
                      Mgr_ensureClusterMembershipBinding
                        (if isOwnerRole then ToLower (ClusterName b @ ''-clusterowner'')
                         else ToLower (ClusterName b @ ''-clustermember''))
                        (pkgrbac_GetRTBLabel c (metaOf b)) cluster isOwnerRole subject,
                      Mgr_grantManagementPlanePrivileges (RoleTemplateName b) subject,
                      ProjectLister_List (Namespace b)]) = (None, (w6, tr6))"
    and "DeletionTimestamp p = None"
    and "mgr_grantManagementClusterScopedPrivilegesInProjectNamespace c (RoleTemplateName b) (Name p)
           (projectManagementPlaneResources c) subject b w6 = (Some err, w7)"
  shows "reconcileBindings c b (w, tr) =
           (Some err, (w7, tr6 @ [Mgr_grantManagementClusterScopedPrivilegesInProjectNamespace
                                    (RoleTemplateName b) (Name p) subject]))"
proof -
  from grantInProjects_append_failure [OF assms(8) assms(9), of err w7 post] assms(10)
  have loop: "grantInProjects c b subject (pre @ p # post)
           (w5, tr @ [ClusterLister_Get [] (ClusterName b),
                      Mgr_checkReferencedRoles (RoleTemplateName b) (clusterContext c) 0,
                      Mgr_ensureClusterMembershipBinding
                        (if isOwnerRole then ToLower (ClusterName b @ ''-clusterowner'')
                         else ToLower (ClusterName b @ ''-clustermember''))
                        (pkgrbac_GetRTBLabel c (metaOf b)) cluster isOwnerRole subject,
                      Mgr_grantManagementPlanePrivileges (RoleTemplateName b) subject,
                      ProjectLister_List (Namespace b)])
        = (Some err, (w7, tr6 @ [Mgr_grantManagementClusterScopedPrivilegesInProjectNamespace
                                    (RoleTemplateName b) (Name p) subject]))"
    by simp
  show ?thesis
    using assms(1-7) loop
    by (simp add: reconcileBindings_def invoke_def Let_def split: if_splits)
qed

text \<open>
  Two runs: the grant fails in the first of two projects; and, of four projects, the first
  is being deleted, the grant succeeds in the second and fails in the third, and the fourth
  is never reached.
\<close>

theorem replication_stops_at_first_failure_witness:
  "reconcileBindings (kubeLifecycle namespaceAndName) aliceCRTB (grantFailsInFirstProject, []) =
     (Some forbidden,
      (twoProjects,
       [ClusterLister_Get [] ''c-1'',
        Mgr_checkReferencedRoles ''cluster-owner'' ''cluster'' 0,
        Mgr_ensureClusterMembershipBinding ''c-1-clusterowner'' ''c-1_crtb1'' (mkMeta [] ''c-1'' [])
          True aliceSubject,
        Mgr_grantManagementPlanePrivileges ''cluster-owner'' aliceSubject,
        ProjectLister_List ''c-1'',
        Mgr_grantManagementClusterScopedPrivilegesInProjectNamespace ''cluster-owner'' ''p-1''
          aliceSubject]))
   \<and> reconcileBindings (kubeLifecycle namespaceAndName) aliceCRTB (grantFailsInThirdProject, []) =
     (Some forbidden,
      (fourProjects,
       [ClusterLister_Get [] ''c-1'',
        Mgr_checkReferencedRoles ''cluster-owner'' ''cluster'' 0,
        Mgr_ensureClusterMembershipBinding ''c-1-clusterowner'' ''c-1_crtb1'' (mkMeta [] ''c-1'' [])
          True aliceSubject,
        Mgr_grantManagementPlanePrivileges ''cluster-owner'' aliceSubject,
        ProjectLister_List ''c-1'',
        Logrus_Warnf ''Project p-0 is being deleted, not creating membership bindings'',
        Mgr_grantManagementClusterScopedPrivilegesInProjectNamespace ''cluster-owner'' ''p-1''
          aliceSubject,
        Mgr_grantManagementClusterScopedPrivilegesInProjectNamespace ''cluster-owner'' ''p-2''
          aliceSubject]))"
proof -
  let ?c = "kubeLifecycle namespaceAndName"
  let ?w = grantFailsInFirstProject
  let ?v = grantFailsInThirdProject
  let ?tr = "[ClusterLister_Get [] (ClusterName aliceCRTB),
              Mgr_checkReferencedRoles (RoleTemplateName aliceCRTB) (clusterContext ?c) 0,
              Mgr_ensureClusterMembershipBinding
                (if True then ToLower (ClusterName aliceCRTB @ ''-clusterowner'')
                 else ToLower (ClusterName aliceCRTB @ ''-clustermember''))
                (pkgrbac_GetRTBLabel ?c (metaOf aliceCRTB)) (mkMeta [] ''c-1'' []) True aliceSubject,
              Mgr_grantManagementPlanePrivileges (RoleTemplateName aliceCRTB) aliceSubject,
              ProjectLister_List (Namespace aliceCRTB)]"
  let ?p0 = "(mkMeta ''c-1'' ''p-0'' [])\<lparr>DeletionTimestamp := Some 1700000000\<rparr>"
  let ?tr6 = "?tr @ [Logrus_Warnf ''Project p-0 is being deleted, not creating membership bindings'',
                     Mgr_grantManagementClusterScopedPrivilegesInProjectNamespace ''cluster-owner'' ''p-1''
                       aliceSubject]"
  have h1: "\<not> (UserName aliceCRTB = [] \<and> GroupPrincipalName aliceCRTB = [] \<and> GroupName aliceCRTB = [])"
    by (simp add: aliceCRTB_def mkCRTB_def)
  have h2: "clusterLister_Get ?c [] (ClusterName aliceCRTB) ?w = (Inr (Some (mkMeta [] ''c-1'' [])), ?w)"
    by (simp add: kube_simps)
  have h3: "mgr_checkReferencedRoles ?c (RoleTemplateName aliceCRTB) (clusterContext ?c) 0 ?w
              = (Inr True, ?w)"
    by (simp add: kube_simps)
  have h4: "pkgrbac_BuildSubjectFromRTB ?c aliceCRTB = Inr aliceSubject"
    by (simp add: kube_simps)
  have h5: "mgr_ensureClusterMembershipBinding ?c
              (if True then ToLower (ClusterName aliceCRTB @ ''-clusterowner'')
               else ToLower (ClusterName aliceCRTB @ ''-clustermember''))
              (pkgrbac_GetRTBLabel ?c (metaOf aliceCRTB)) (mkMeta [] ''c-1'' []) True aliceSubject ?w
              = (None, ?w)"
    by (simp add: kube_simps)
  have h6: "mgr_grantManagementPlanePrivileges ?c (RoleTemplateName aliceCRTB)
              clusterManagementPlaneResources aliceSubject aliceCRTB ?w = (None, ?w)"
    by (simp add: kube_simps)
  have h7: "projectLister_List ?c (Namespace aliceCRTB) ?w
              = (Inr ([] @ mkMeta ''c-1'' ''p-1'' [] # [mkMeta ''c-1'' ''p-2'' []]), ?w)"
    by (simp add: kube_simps)
  have h8: "grantInProjects ?c aliceCRTB aliceSubject [] (?w, [] @ ?tr) = (None, (?w, ?tr))"
    by simp
  have h9: "DeletionTimestamp (mkMeta ''c-1'' ''p-1'' []) = None"
    by (simp add: mkMeta_def)
  have h10: "mgr_grantManagementClusterScopedPrivilegesInProjectNamespace ?c (RoleTemplateName aliceCRTB)
               (Name (mkMeta ''c-1'' ''p-1'' [])) (projectManagementPlaneResources ?c) aliceSubject
               aliceCRTB ?w = (Some forbidden, twoProjects)"
    by (simp add: kube_simps)
  have g2: "clusterLister_Get ?c [] (ClusterName aliceCRTB) ?v = (Inr (Some (mkMeta [] ''c-1'' [])), ?v)"
    by (simp add: kube_simps)
  have g3: "mgr_checkReferencedRoles ?c (RoleTemplateName aliceCRTB) (clusterContext ?c) 0 ?v
              = (Inr True, ?v)"
    by (simp add: kube_simps)
  have g5: "mgr_ensureClusterMembershipBinding ?c
              (if True then ToLower (ClusterName aliceCRTB @ ''-clusterowner'')
               else ToLower (ClusterName aliceCRTB @ ''-clustermember''))
              (pkgrbac_GetRTBLabel ?c (metaOf aliceCRTB)) (mkMeta [] ''c-1'' []) True aliceSubject ?v
              = (None, ?v)"
    by (simp add: kube_simps)
  have g6: "mgr_grantManagementPlanePrivileges ?c (RoleTemplateName aliceCRTB)
              clusterManagementPlaneResources aliceSubject aliceCRTB ?v = (None, ?v)"
    by (simp add: kube_simps)
  have g7: "projectLister_List ?c (Namespace aliceCRTB) ?v
              = (Inr ([?p0, mkMeta ''c-1'' ''p-1'' []] @ mkMeta ''c-1'' ''p-2'' [] # [mkMeta ''c-1'' ''p-3'' []]),
                 ?v)"
    by (simp add: kube_simps)
  have g8: "grantInProjects ?c aliceCRTB aliceSubject [?p0, mkMeta ''c-1'' ''p-1'' []] (?v, [] @ ?tr)
              = (None, (?v, ?tr6))"
    by (simp add: kube_simps)
  have g9: "DeletionTimestamp (mkMeta ''c-1'' ''p-2'' []) = None"
    by (simp add: mkMeta_def)
  have g10: "mgr_grantManagementClusterScopedPrivilegesInProjectNamespace ?c (RoleTemplateName aliceCRTB)
               (Name (mkMeta ''c-1'' ''p-2'' [])) (projectManagementPlaneResources ?c) aliceSubject
               aliceCRTB ?v = (Some forbidden, fourProjects)"
    by (simp add: kube_simps)
  from replication_stops_at_first_failure [OF h1 h2 h3 h4 h5 h6 h7 h8 h9 h10]
  have first: "reconcileBindings ?c aliceCRTB (grantFailsInFirstProject, []) =
     (Some forbidden,
      (twoProjects,
       [ClusterLister_Get [] ''c-1'',
        Mgr_checkReferencedRoles ''cluster-owner'' ''cluster'' 0,
        Mgr_ensureClusterMembershipBinding ''c-1-clusterowner'' ''c-1_crtb1'' (mkMeta [] ''c-1'' [])
          True aliceSubject,
        Mgr_grantManagementPlanePrivileges ''cluster-owner'' aliceSubject,
        ProjectLister_List ''c-1'',
        Mgr_grantManagementClusterScopedPrivilegesInProjectNamespace ''cluster-owner'' ''p-1''
          aliceSubject]))"
    by (simp add: kube_simps)
  from replication_stops_at_first_failure [OF h1 g2 g3 h4 g5 g6 g7 g8 g9 g10]
  have third: "reconcileBindings ?c aliceCRTB (grantFailsInThirdProject, []) =
     (Some forbidden,
      (fourProjects,
       [ClusterLister_Get [] ''c-1'',
        Mgr_checkReferencedRoles ''cluster-owner'' ''cluster'' 0,
        Mgr_ensureClusterMembershipBinding ''c-1-clusterowner'' ''c-1_crtb1'' (mkMeta [] ''c-1'' [])
          True aliceSubject,
        Mgr_grantManagementPlanePrivileges ''cluster-owner'' aliceSubject,
        ProjectLister_List ''c-1'',
        Logrus_Warnf ''Project p-0 is being deleted, not creating membership bindings'',
        Mgr_grantManagementClusterScopedPrivilegesInProjectNamespace ''cluster-owner'' ''p-1''
          aliceSubject,
        Mgr_grantManagementClusterScopedPrivilegesInProjectNamespace ''cluster-owner'' ''p-2''
          aliceSubject]))"
    by (simp add: kube_simps)
  from first third show ?thesis by simp
qed

theorem replication_continues_counterexample:
  "DeletionTimestamp (mkMeta ''c-1'' ''p-2'' []) = None
   \<and> fst (kube_projectLister_List ''c-1'' grantFailsInFirstProject)
       = Inr [mkMeta ''c-1'' ''p-1'' [], mkMeta ''c-1'' ''p-2'' []]
   \<and> fst (reconcileBindings (kubeLifecycle namespaceAndName) aliceCRTB (grantFailsInFirstProject, []))
       = Some forbidden
   \<and> Mgr_grantManagementClusterScopedPrivilegesInProjectNamespace ''cluster-owner'' ''p-2'' aliceSubject
       \<notin> set (snd (snd (reconcileBindings (kubeLifecycle namespaceAndName) aliceCRTB
                          (grantFailsInFirstProject, []))))"
  by (simp add: reconcileBindings_def invoke_def Let_def kube_simps)

section \<open>Removal of a binding\<close>

lemma Matches_single: "Matches (AsSelector [(k, v)]) (Labels x) = carriesLabel k v x"
  by (simp add: Matches_def AsSelector_def carriesLabel_def)

lemma kube_list_rb:
  assumes "rbLister_List (kubeLifecycle label) ns sel w = (r, w')"
  shows "kRoleBindings w' = kRoleBindings w"
    and "r = Inr rbs \<Longrightarrow> rbs = filter (\<lambda>x. inNamespace ns x \<and> Matches sel (Labels x)) (kRoleBindings w)"
  using assms
  by (auto simp: kubeLifecycle_def kube_rbLister_List_def faultSum_def split: option.splits prod.splits)

lemma kube_delete_rb:
  assumes "rbClient_DeleteNamespaced (kubeLifecycle label) ns name w = (r, w')"
  shows "r = None \<Longrightarrow> kRoleBindings w' = filter (\<lambda>x. \<not> sameKey ns name x) (kRoleBindings w)"
    and "r \<noteq> None \<Longrightarrow> kRoleBindings w' = kRoleBindings w"
  using assms
  by (auto simp: kubeLifecycle_def kube_rbClient_DeleteNamespaced_def faultOpt_def
           split: option.splits prod.splits sum.splits)

lemma deleteRoleBindings_store:
  "deleteRoleBindings (kubeLifecycle label) b pName rbs s = (res, s') \<Longrightarrow>
     \<exists>D. D \<subseteq> Name ` set rbs
        \<and> kRoleBindings (fst s') = filter (\<lambda>x. \<not> (Namespace x = pName \<and> Name x \<in> D)) (kRoleBindings (fst s))
        \<and> (res = None \<longrightarrow> D = Name ` set rbs)"
proof (induction rbs arbitrary: s)
  case Nil
  then show ?case by auto
next
  case (Cons rb rbs)
  obtain r w1 where del: "rbClient_DeleteNamespaced (kubeLifecycle label) pName (Name rb) (fst s) = (r, w1)"
    by fastforce
  show ?case
  proof (cases r)
    case (Some err)
    with del Cons.prems have "res = Some err" "fst s' = w1"
      by (auto simp: invoke_def logrus_def)
    moreover from kube_delete_rb(2) [OF del] Some have "kRoleBindings w1 = kRoleBindings (fst s)" by simp
    ultimately show ?thesis by (intro exI [of _ "{}"]) simp
  next
    case None
    let ?s1 = "(w1, snd (logrus (Logrus_Infof (''['' @ ctrbMGMTController @ ''] Deleting rolebinding '' @ Name rb
                @ '' in namespace '' @ pName @ '' for crtb '' @ Name b)) s) @ [RbClient_DeleteNamespaced pName (Name rb)])"
    from del None Cons.prems have rest: "deleteRoleBindings (kubeLifecycle label) b pName rbs ?s1 = (res, s')"
      by (simp add: invoke_def logrus_def)
    from Cons.IH [OF rest] obtain D where
      D: "D \<subseteq> Name ` set rbs"
         "kRoleBindings (fst s') = filter (\<lambda>x. \<not> (Namespace x = pName \<and> Name x \<in> D)) (kRoleBindings w1)"
         "res = None \<longrightarrow> D = Name ` set rbs"
      by auto
    from kube_delete_rb(1) [OF del None]
    have w1: "kRoleBindings w1 = filter (\<lambda>x. \<not> sameKey pName (Name rb) x) (kRoleBindings (fst s))" .
    have "kRoleBindings (fst s')
            = filter (\<lambda>x. \<not> (Namespace x = pName \<and> Name x \<in> insert (Name rb) D)) (kRoleBindings (fst s))"
      unfolding D(2) w1 by (auto simp: sameKey_def intro: filter_cong)
    with D(1) D(3) show ?thesis
      by (intro exI [of _ "insert (Name rb) D"]) auto
  qed
qed

lemma removeInProjects_store:
  assumes "removeInProjects (kubeLifecycle label) b key ps s = (res, s')"
    and "distinct (map (\<lambda>x. (Namespace x, Name x)) (kRoleBindings (fst s)))"
    and "\<forall>p \<in> set ps. Name p \<noteq> []"
  shows "\<exists>R. (\<forall>x. R x \<longrightarrow> Namespace x \<in> Name ` set ps \<and> carriesLabel key CrtbInProjectBindingOwner x)
           \<and> kRoleBindings (fst s') = filter (\<lambda>x. \<not> R x) (kRoleBindings (fst s))
           \<and> (res = None \<longrightarrow>
                (\<forall>x \<in> set (kRoleBindings (fst s)).
                   Namespace x \<in> Name ` set ps \<and> carriesLabel key CrtbInProjectBindingOwner x \<longrightarrow> R x))"
  using assms
proof (induction ps arbitrary: s)
  case Nil
  then show ?case by (intro exI [of _ "\<lambda>x. False"]) auto
next
  case (Cons p ps)
  let ?sel = "AsSelector [(key, CrtbInProjectBindingOwner)]"
  let ?store = "kRoleBindings (fst s)"
  obtain r w1 where lst: "rbLister_List (kubeLifecycle label) (Name p) ?sel (fst s) = (r, w1)"
    by fastforce
  have w1: "kRoleBindings w1 = ?store" by (rule kube_list_rb(1) [OF lst])
  show ?case
  proof (cases r)
    case (Inl err)
    with lst Cons.prems(1) have "res = Some err" "fst s' = w1"
      by (auto simp: invoke_def Let_def)
    with w1 show ?thesis by (intro exI [of _ "\<lambda>x. False"]) simp
  next
    case (Inr rbs)
    from Cons.prems(3) have pne: "Name p \<noteq> []" by simp
    from kube_list_rb(2) [OF lst Inr] pne
    have rbs: "rbs = filter (\<lambda>x. Namespace x = Name p \<and> carriesLabel key CrtbInProjectBindingOwner x) ?store"
      by (simp add: inNamespace_def NamespaceAll_def Matches_single)
    let ?s1 = "(w1, snd s @ [RbLister_List (Name p) ?sel])"
    obtain r2 s2 where del: "deleteRoleBindings (kubeLifecycle label) b (Name p) rbs ?s1 = (r2, s2)"
      by (cases "deleteRoleBindings (kubeLifecycle label) b (Name p) rbs ?s1") auto
    from deleteRoleBindings_store [OF del] w1 obtain D where
      D: "D \<subseteq> Name ` set rbs"
         "kRoleBindings (fst s2) = filter (\<lambda>x. \<not> (Namespace x = Name p \<and> Name x \<in> D)) ?store"
         "r2 = None \<longrightarrow> D = Name ` set rbs"
      by auto
    from Cons.prems(2) have inj: "inj_on (\<lambda>x. (Namespace x, Name x)) (set ?store)"
      by (simp add: distinct_map)
    define R1 where "R1 x = (x \<in> set ?store \<and> Namespace x = Name p \<and> Name x \<in> D)" for x
    have R1_owned: "carriesLabel key CrtbInProjectBindingOwner x" if "R1 x" for x
    proof -
      from that D(1) obtain rb where rb: "rb \<in> set rbs" "Name rb = Name x"
        by (auto simp: R1_def)
      with rbs have "rb \<in> set ?store" "Namespace rb = Name p" "carriesLabel key CrtbInProjectBindingOwner rb"
        by auto
      moreover from that have "x \<in> set ?store" "Namespace x = Name p" by (auto simp: R1_def)
      ultimately have "rb = x" using inj_onD [OF inj, of rb x] rb(2) by simp
      with \<open>carriesLabel key CrtbInProjectBindingOwner rb\<close> show ?thesis by simp
    qed
    have s2: "kRoleBindings (fst s2) = filter (\<lambda>x. \<not> R1 x) ?store"
      unfolding D(2) by (rule filter_cong) (auto simp: R1_def)
    show ?thesis
    proof (cases r2)
      case (Some err)
      with lst Inr del Cons.prems(1) have "res = Some err" "s' = s2"
        by (auto simp: invoke_def Let_def)
      with s2 R1_owned show ?thesis
        by (intro exI [of _ R1]) (auto simp: R1_def)
    next
      case None
      with lst Inr del Cons.prems(1)
      have rest: "removeInProjects (kubeLifecycle label) b key ps s2 = (res, s')"
        by (auto simp: invoke_def Let_def)
      have dist2: "distinct (map (\<lambda>x. (Namespace x, Name x)) (kRoleBindings (fst s2)))"
        unfolding s2 using Cons.prems(2) by (rule distinct_map_filter)
      from Cons.prems(3) have names: "\<forall>p \<in> set ps. Name p \<noteq> []" by simp
      from Cons.IH [OF rest dist2 names] obtain R2 where
        R2: "\<forall>x. R2 x \<longrightarrow> Namespace x \<in> Name ` set ps \<and> carriesLabel key CrtbInProjectBindingOwner x"
            "kRoleBindings (fst s') = filter (\<lambda>x. \<not> R2 x) (kRoleBindings (fst s2))"
            "res = None \<longrightarrow>
               (\<forall>x \<in> set (kRoleBindings (fst s2)).
                  Namespace x \<in> Name ` set ps \<and> carriesLabel key CrtbInProjectBindingOwner x \<longrightarrow> R2 x)"
        by blast
      from None D(3) have Dall: "D = Name ` set rbs" by simp
      have a: "\<forall>x. (R1 x \<or> R2 x) \<longrightarrow>
                 Namespace x \<in> Name ` set (p # ps) \<and> carriesLabel key CrtbInProjectBindingOwner x"
        using R1_owned R2(1) by (auto simp: R1_def)
      have b: "kRoleBindings (fst s') = filter (\<lambda>x. \<not> (R1 x \<or> R2 x)) ?store"
        unfolding R2(2) s2 by (auto intro: filter_cong)
      have c: "res = None \<longrightarrow>
                 (\<forall>x \<in> set ?store.
                    Namespace x \<in> Name ` set (p # ps) \<and> carriesLabel key CrtbInProjectBindingOwner x
                      \<longrightarrow> R1 x \<or> R2 x)"
      proof (intro impI ballI)
        fix x
        assume res: "res = None" and x: "x \<in> set ?store"
          and own: "Namespace x \<in> Name ` set (p # ps) \<and> carriesLabel key CrtbInProjectBindingOwner x"
        show "R1 x \<or> R2 x"
        proof (cases "Namespace x = Name p")
          case True
          with x own rbs have "x \<in> set rbs" by simp
          with Dall have "Name x \<in> D" by simp
          with x True show ?thesis by (simp add: R1_def)
        next
          case False
          with own have ns: "Namespace x \<in> Name ` set ps" by auto
          from False have "\<not> R1 x" by (simp add: R1_def)
          with x s2 have "x \<in> set (kRoleBindings (fst s2))" by simp
          with R2(3) res ns own show ?thesis by blast
        qed
      qed
      from a b c show ?thesis by (intro exI [of _ "\<lambda>x. R1 x \<or> R2 x"]) blast
    qed
  qed
qed

text \<open>
  C2. On the in-memory API server, with role bindings that are distinct by namespace and
  name and projects with non-empty names, the cleanup that \<open>Remove\<close> runs over the
  projects (\<open>removeMGMTClusterScopedPrivilegesInProjectNamespace\<close>) never deletes a role
  binding that is not owned through this binding's own key in a project namespace, whether
  it ends with an error or not; and when it returns nil, the role bindings left are exactly
  those that were not so owned. A role binding labelled only with another binding's key
  therefore stays.
\<close>

theorem removal_deletes_exactly_owned:
  assumes "distinct (map (\<lambda>x. (Namespace x, Name x)) (kRoleBindings w))"
    and "Namespace b \<noteq> []"
    and "\<forall>p \<in> set (kProjects w). Name p \<noteq> []"
    and "removeMGMTClusterScopedPrivilegesInProjectNamespace (kubeLifecycle label) b (w, tr) = (res, (w', tr'))"
  shows "(\<forall>x \<in> set (kRoleBindings w).
            \<not> ownedInProject w b (label (metaOf b)) x \<longrightarrow> x \<in> set (kRoleBindings w'))
       \<and> (res = None \<longrightarrow>
            kRoleBindings w' = filter (\<lambda>x. \<not> ownedInProject w b (label (metaOf b)) x) (kRoleBindings w))"
proof -
  let ?K = "kubeLifecycle label"
  let ?key = "label (metaOf b)"
  obtain r w1 where lst: "projectLister_List ?K (Namespace b) w = (r, w1)" by fastforce
  then have w1: "kRoleBindings w1 = kRoleBindings w"
    and ps: "\<And>ps. r = Inr ps \<Longrightarrow> ps = filter (inNamespace (Namespace b)) (kProjects w)"
    by (auto simp: kubeLifecycle_def kube_projectLister_List_def faultSum_def
             split: option.splits prod.splits)
  show ?thesis
  proof (cases r)
    case (Inl err)
    with lst assms(4) have "res = Some err" "w' = w1"
      by (auto simp: removeMGMTClusterScopedPrivilegesInProjectNamespace_def invoke_def)
    with w1 show ?thesis by simp
  next
    case (Inr projects)
    let ?s1 = "(w1, tr @ [ProjectLister_List (Namespace b)])"
    from lst Inr assms(4)
    have run: "removeInProjects ?K b ?key projects ?s1 = (res, (w', tr'))"
      by (auto simp: removeMGMTClusterScopedPrivilegesInProjectNamespace_def invoke_def kubeLifecycle_def)
    from ps [OF Inr] assms(2)
    have projects: "set projects = {p \<in> set (kProjects w). Namespace p = Namespace b}"
      by (auto simp: inNamespace_def NamespaceAll_def)
    with assms(3) have names: "\<forall>p \<in> set projects. Name p \<noteq> []" by simp
    from assms(1) w1 have dist: "distinct (map (\<lambda>x. (Namespace x, Name x)) (kRoleBindings (fst ?s1)))"
      by simp
    from removeInProjects_store [OF run dist names] w1 obtain R where
      R: "\<forall>x. R x \<longrightarrow> Namespace x \<in> Name ` set projects \<and> carriesLabel ?key CrtbInProjectBindingOwner x"
         "kRoleBindings w' = filter (\<lambda>x. \<not> R x) (kRoleBindings w)"
         "res = None \<longrightarrow>
            (\<forall>x \<in> set (kRoleBindings w).
               Namespace x \<in> Name ` set projects \<and> carriesLabel ?key CrtbInProjectBindingOwner x \<longrightarrow> R x)"
      by auto
    have owned: "ownedInProject w b ?key x
                   = (Namespace x \<in> Name ` set projects \<and> carriesLabel ?key CrtbInProjectBindingOwner x)" for x
      unfolding ownedInProject_def projects by auto
    have frame: "\<forall>x \<in> set (kRoleBindings w). \<not> ownedInProject w b ?key x \<longrightarrow> x \<in> set (kRoleBindings w')"
      using R(1) unfolding R(2) owned by auto
    have exact: "res = None \<longrightarrow>
            kRoleBindings w' = filter (\<lambda>x. \<not> ownedInProject w b ?key x) (kRoleBindings w)"
    proof
      assume "res = None"
      with R(3) R(1) have "\<forall>x \<in> set (kRoleBindings w). R x = ownedInProject w b ?key x"
        unfolding owned by blast
      then show "kRoleBindings w' = filter (\<lambda>x. \<not> ownedInProject w b ?key x) (kRoleBindings w)"
        unfolding R(2) by (auto intro: filter_cong)
    qed
    from frame exact show ?thesis by simp
  qed
qed

theorem removal_deletes_exactly_owned_witness:
  "removeMGMTClusterScopedPrivilegesInProjectNamespace (kubeLifecycle namespaceAndName) aliceCRTB
       (threeBindings, [])
     = (None,
        (threeBindings\<lparr>kRoleBindings := [otherOwnersBinding, bindingElsewhere]\<rparr>,
         [ProjectLister_List ''c-1'',
          RbLister_List ''p-1'' (AsSelector [(''c-1_crtb1'', ''crtb-in-project-binding-owner'')]),
          Logrus_Infof ''[mgmt-auth-crtb-controller] Deleting rolebinding rb-a in namespace p-1 for crtb crtb1'',
          RbClient_DeleteNamespaced ''p-1'' ''rb-a'',
          RbLister_List ''p-2'' (AsSelector [(''c-1_crtb1'', ''crtb-in-project-binding-owner'')])]))
   \<and> filter (\<lambda>x. \<not> ownedInProject threeBindings aliceCRTB (namespaceAndName (metaOf aliceCRTB)) x)
        (kRoleBindings threeBindings)
     = [otherOwnersBinding, bindingElsewhere]
   \<and> otherOwnersBinding \<in> set (kRoleBindings (threeBindings\<lparr>kRoleBindings := [otherOwnersBinding, bindingElsewhere]\<rparr>))"
proof -
  let ?w' = "threeBindings\<lparr>kRoleBindings := [otherOwnersBinding, bindingElsewhere]\<rparr>"
  let ?tr' = "[ProjectLister_List ''c-1'',
          RbLister_List ''p-1'' (AsSelector [(''c-1_crtb1'', ''crtb-in-project-binding-owner'')]),
          Logrus_Infof ''[mgmt-auth-crtb-controller] Deleting rolebinding rb-a in namespace p-1 for crtb crtb1'',
          RbClient_DeleteNamespaced ''p-1'' ''rb-a'',
          RbLister_List ''p-2'' (AsSelector [(''c-1_crtb1'', ''crtb-in-project-binding-owner'')])]"
  have h1: "distinct (map (\<lambda>x. (Namespace x, Name x)) (kRoleBindings threeBindings))"
    by (simp add: kube_simps)
  have h2: "Namespace aliceCRTB \<noteq> []"
    by (simp add: kube_simps)
  have h3: "\<forall>p \<in> set (kProjects threeBindings). Name p \<noteq> []"
    by (simp add: kube_simps)
  have h4: "removeMGMTClusterScopedPrivilegesInProjectNamespace (kubeLifecycle namespaceAndName) aliceCRTB
              (threeBindings, []) = (None, (?w', ?tr'))"
    by (simp add: removeMGMTClusterScopedPrivilegesInProjectNamespace_def kube_simps Let_def)
  have "otherOwnersBinding \<in> set (kRoleBindings threeBindings)"
    and "\<not> ownedInProject threeBindings aliceCRTB (namespaceAndName (metaOf aliceCRTB)) otherOwnersBinding"
    by (simp_all add: ownedInProject_def carriesLabel_def kube_simps)
  with removal_deletes_exactly_owned [OF h1 h2 h3 h4] h4
  show ?thesis by simp
qed


section \<open>Retries and batches\<close>

lemma callsAppended_refl: "callsAppended Q s s"
  by (simp add: callsAppended_def)

lemma callsAppended_trans:
  "callsAppended Q s s' \<Longrightarrow> callsAppended Q s' s'' \<Longrightarrow> callsAppended Q s s''"
  by (auto simp: callsAppended_def)

lemma callsAppended_mono: "callsAppended Q s s' \<Longrightarrow> e \<in> set (snd s) \<Longrightarrow> e \<in> set (snd s')"
  by (auto simp: callsAppended_def)

lemma callsAppended_invoke: "Q call \<Longrightarrow> invoke call f s = (r, s') \<Longrightarrow> callsAppended Q s s'"
  by (auto simp: callsAppended_def invoke_def split: prod.splits)

lemma invoke_logged: "invoke call f s = (r, s') \<Longrightarrow> call \<in> set (snd s')"
  by (auto simp: invoke_def split: prod.splits)

lemma retryLoop_appended:
  assumes "\<And>s r s'. fn s = (r, s') \<Longrightarrow> callsAppended Q s s'"
  shows "retryLoop n fn lastErr s = (r, s') \<Longrightarrow> callsAppended Q s s'"
proof (induction n arbitrary: lastErr s)
  case 0
  then show ?case by (simp add: callsAppended_refl)
next
  case (Suc n)
  obtain r1 s1 where f: "fn s = (r1, s1)" by (cases "fn s") auto
  from assms [OF f] have a: "callsAppended Q s s1" .
  show ?case
  proof (cases r1)
    case None
    with f Suc.prems a show ?thesis by simp
  next
    case (Some e)
    show ?thesis
    proof (cases "IsConflict e")
      case True
      with f Some Suc.prems have "retryLoop n fn (Some e) s1 = (r, s')" by simp
      from Suc.IH [OF this] a show ?thesis by (rule callsAppended_trans [rotated])
    next
      case False
      with f Some Suc.prems a show ?thesis by simp
    qed
  qed
qed

lemma retryLoop_logged:
  assumes "\<And>s r s'. fn s = (r, s') \<Longrightarrow> callsAppended Q s s'"
    and "\<And>s r s'. fn s = (r, s') \<Longrightarrow> call \<in> set (snd s')"
  shows "retryLoop (Suc n) fn lastErr s = (r, s') \<Longrightarrow> call \<in> set (snd s')"
proof -
  assume run: "retryLoop (Suc n) fn lastErr s = (r, s')"
  obtain r1 s1 where f: "fn s = (r1, s1)" by (cases "fn s") auto
  from assms(2) [OF f] have logged: "call \<in> set (snd s1)" .
  show ?thesis
  proof (cases "\<exists>e. r1 = Some e \<and> IsConflict e")
    case True
    then obtain e where "r1 = Some e" "IsConflict e" by auto
    with f run have "retryLoop n fn (Some e) s1 = (r, s')" by simp
    from retryLoop_appended [of fn Q, OF assms(1) this] logged
    show ?thesis by (rule callsAppended_mono)
  next
    case False
    with f run have "s' = s1" by (cases r1) auto
    with logged show ?thesis by simp
  qed
qed

lemma retryLoop_success:
  "retryLoop n fn lastErr s = (None, s') \<Longrightarrow>
     (n = 0 \<and> lastErr = None \<and> s' = s) \<or> (\<exists>s0. fn s0 = (None, s'))"
proof (induction n arbitrary: lastErr s)
  case 0
  then show ?case by simp
next
  case (Suc n)
  obtain r1 s1 where f: "fn s = (r1, s1)" by (cases "fn s") auto
  show ?case
  proof (cases r1)
    case None
    with f Suc.prems show ?thesis by auto
  next
    case (Some e)
    with f Suc.prems have c: "IsConflict e" and "retryLoop n fn (Some e) s1 = (None, s')"
      by (auto split: if_splits)
    from Suc.IH [OF this(2)] show ?thesis by auto
  qed
qed

lemma updateCRBLabels_appended:
  "updateCRBLabels c key crb s = (r, s') \<Longrightarrow> callsAppended (\<lambda>e. \<not> isCrtbClientCall e) s s'"
  by (auto simp: updateCRBLabels_def invoke_def callsAppended_def Let_def split: prod.splits sum.splits)

lemma updateCRBLabels_logged:
  "updateCRBLabels c key crb s = (r, s') \<Longrightarrow> CrbClient_Get (Name crb) \<in> set (snd s')"
  by (auto simp: updateCRBLabels_def invoke_def Let_def split: prod.splits sum.splits)

lemma updateRBLabels_appended:
  "updateRBLabels c key rb s = (r, s') \<Longrightarrow> callsAppended (\<lambda>e. \<not> isCrtbClientCall e) s s'"
  by (auto simp: updateRBLabels_def invoke_def callsAppended_def Let_def split: prod.splits sum.splits)

lemma updateRBLabels_logged:
  "updateRBLabels c key rb s = (r, s') \<Longrightarrow> RbClient_GetNamespaced (Namespace rb) (Name rb) \<in> set (snd s')"
  by (auto simp: updateRBLabels_def invoke_def Let_def split: prod.splits sum.splits)

lemma attemptEach_length: "attemptEach f xs s = (outs, s') \<Longrightarrow> length outs = length xs"
  by (induction xs arbitrary: s outs) (auto split: prod.splits)

lemma attemptEach_appended:
  assumes "\<And>x s r s'. f x s = (r, s') \<Longrightarrow> callsAppended Q s s'"
  shows "attemptEach f xs s = (outs, s') \<Longrightarrow> callsAppended Q s s'"
proof (induction xs arbitrary: s outs)
  case Nil
  then show ?case by (simp add: callsAppended_refl)
next
  case (Cons x xs)
  then obtain e s1 es where f: "f x s = (e, s1)" and rest: "attemptEach f xs s1 = (es, s')"
    by (auto split: prod.splits)
  from assms [OF f] Cons.IH [OF rest] show ?case by (rule callsAppended_trans)
qed

lemma attemptEach_logged:
  assumes "\<And>x s r s'. f x s = (r, s') \<Longrightarrow> callsAppended Q s s'"
    and "\<And>x s r s'. f x s = (r, s') \<Longrightarrow> call x \<in> set (snd s')"
  shows "attemptEach f xs s = (outs, s') \<Longrightarrow> x \<in> set xs \<Longrightarrow> call x \<in> set (snd s')"
proof (induction xs arbitrary: s outs)
  case Nil
  then show ?case by simp
next
  case (Cons y xs)
  then obtain e s1 es where f: "f y s = (e, s1)" and rest: "attemptEach f xs s1 = (es, s')"
    by (auto split: prod.splits)
  show ?case
  proof (cases "x = y")
    case True
    from assms(2) [OF f] True have "call x \<in> set (snd s1)" by simp
    with attemptEach_appended [of f Q, OF assms(1) rest] show ?thesis
      by (rule callsAppended_mono)
  next
    case False
    with Cons.prems(2) have "x \<in> set xs" by simp
    from Cons.IH [OF rest this] show ?thesis .
  qed
qed

lemma relabelCRBs_attemptEach:
  "relabelCRBs c key crbs returnErr s =
     (foldl (\<lambda>acc e. errors_Join [acc, e]) returnErr
        (fst (attemptEach (\<lambda>crb. RetryOnConflict DefaultRetry (updateCRBLabels c key crb)) crbs s)),
      snd (attemptEach (\<lambda>crb. RetryOnConflict DefaultRetry (updateCRBLabels c key crb)) crbs s))"
  by (induction crbs arbitrary: returnErr s) (auto split: prod.splits)

lemma relabelRBs_attemptEach:
  "relabelRBs c key rbs returnErr s =
     (foldl (\<lambda>acc e. errors_Join [acc, e]) returnErr
        (fst (attemptEach (\<lambda>rb. RetryOnConflict DefaultRetry (updateRBLabels c key rb)) rbs s)),
      snd (attemptEach (\<lambda>rb. RetryOnConflict DefaultRetry (updateRBLabels c key rb)) rbs s))"
  by (induction rbs arbitrary: returnErr s) (auto split: prod.splits)

lemma errors_Join_None: "errors_Join [a, e] = None \<longleftrightarrow> a = None \<and> e = None"
  by (cases a; cases e) (simp_all add: errors_Join_def List.map_filter_def)

lemma foldl_Join_None:
  "foldl (\<lambda>acc e. errors_Join [acc, e]) r outs = None \<longleftrightarrow> r = None \<and> (\<forall>e \<in> set outs. e = None)"
  by (induction outs arbitrary: r) (auto simp: errors_Join_None)

lemma errors_JoinAll_None: "errors_JoinAll outs = None \<longleftrightarrow> (\<forall>e \<in> set outs. e = None)"
  by (simp add: errors_JoinAll_def foldl_Join_None)

lemma retry_crb_appended:
  "RetryOnConflict DefaultRetry (updateCRBLabels c key crb) s = (r, s')
     \<Longrightarrow> callsAppended (\<lambda>e. \<not> isCrtbClientCall e) s s'"
  unfolding RetryOnConflict_def by (rule retryLoop_appended) (rule updateCRBLabels_appended)

lemma retry_crb_logged:
  "RetryOnConflict DefaultRetry (updateCRBLabels c key crb) s = (r, s')
     \<Longrightarrow> CrbClient_Get (Name crb) \<in> set (snd s')"
  unfolding RetryOnConflict_def DefaultRetry_def eval_nat_numeral
  by (rule retryLoop_logged [where Q = "\<lambda>e. \<not> isCrtbClientCall e"])
     (erule updateCRBLabels_appended updateCRBLabels_logged)+

lemma retry_rb_appended:
  "RetryOnConflict DefaultRetry (updateRBLabels c key rb) s = (r, s')
     \<Longrightarrow> callsAppended (\<lambda>e. \<not> isCrtbClientCall e) s s'"
  unfolding RetryOnConflict_def by (rule retryLoop_appended) (rule updateRBLabels_appended)

lemma retry_rb_logged:
  "RetryOnConflict DefaultRetry (updateRBLabels c key rb) s = (r, s')
     \<Longrightarrow> RbClient_GetNamespaced (Namespace rb) (Name rb) \<in> set (snd s')"
  unfolding RetryOnConflict_def DefaultRetry_def eval_nat_numeral
  by (rule retryLoop_logged [where Q = "\<lambda>e. \<not> isCrtbClientCall e"])
     (erule updateRBLabels_appended updateRBLabels_logged)+

text \<open>The run of \<open>reconcileLabels\<close> up to the end of the two loops.\<close>

lemma reconcileLabels_batches:
  assumes "mapGet (Labels b) RtbCrbRbLabelsUpdated \<noteq> ''true''"
    and "getLabelRequirements c (metaOf b) = Inr reqs"
    and "crbLister_List c NamespaceAll (Add (AsSelector [(UID b, MembershipBindingOwnerLegacy)]) reqs) w
           = (Inr crbs, w1)"
    and "attemptEach (\<lambda>crb. RetryOnConflict DefaultRetry
                               (updateCRBLabels c (pkgrbac_GetRTBLabel c (metaOf b)) crb)) crbs
           (w1, tr @ [CrbLister_List NamespaceAll
                        (Add (AsSelector [(UID b, MembershipBindingOwnerLegacy)]) reqs)])
           = (outs1, (w2, tr2))"
    and "rbLister_List c NamespaceAll (Add (AsSelector [(UID b, CrtbInProjectBindingOwner)]) reqs) w2
           = (Inr rbs, w3)"
    and "attemptEach (\<lambda>rb. RetryOnConflict DefaultRetry
                              (updateRBLabels c (pkgrbac_GetRTBLabel c (metaOf b)) rb)) rbs
           (w3, tr2 @ [RbLister_List NamespaceAll
                         (Add (AsSelector [(UID b, CrtbInProjectBindingOwner)]) reqs)])
           = (outs2, (w4, tr4))"
  shows "reconcileLabels c b (w, tr) =
           (case errors_JoinAll (outs1 @ outs2) of
              Some err \<Rightarrow> (Some err, (w4, tr4))
            | None \<Rightarrow> RetryOnConflict DefaultRetry (updateCRTBLabel c b) (w4, tr4))"
  using assms
  by (simp add: reconcileLabels_def Let_def invoke_def relabelCRBs_attemptEach relabelRBs_attemptEach
        errors_JoinAll_def split: option.split)


lemma alistSet_same: "map_of (alistSet k v kvs) k = Some v"
  by (induction kvs) auto

lemma mapGet_mapSet_same: "mapGet (mapSet m k v) k = v"
  by (simp add: mapGet_def mapSet_def alistSet_same)

lemma updateCRTBLabel_success:
  "updateCRTBLabel c b s0 = (None, s') \<Longrightarrow>
     \<exists>obj. snd s' \<noteq> [] \<and> last (snd s') = CrtbClient_Update obj
          \<and> mapGet (Labels obj) RtbCrbRbLabelsUpdated = ''true''"
  by (auto simp: updateCRTBLabel_def invoke_def Let_def mapGet_mapSet_same split: prod.splits sum.splits)

lemma reconcileLabels_completed:
  assumes "mapGet (Labels b) RtbCrbRbLabelsUpdated \<noteq> ''true''"
    and "reconcileLabels c b s = (None, s')"
  shows "\<exists>s4. RetryOnConflict DefaultRetry (updateCRTBLabel c b) s4 = (None, s')"
  using assms
  by (auto simp: reconcileLabels_def Let_def split: sum.splits prod.splits option.splits)


section \<open>Label migration\<close>

text \<open>
  C5. A binding whose labels carry \<open>auth.management.cattle.io/crb-rb-labels-updated\<close>
  with the value "true" is left alone by \<open>reconcileLabels\<close>: the call returns nil at
  once, makes no call on a lister or a client, and the outside world is as before. And a
  first run that completes (returns nil on a binding without the sentinel) ends with the
  update of the binding, the updated object carries the sentinel, and running the
  migration again on that object changes nothing and makes no call.
\<close>

theorem reconcileLabels_idempotent:
  "(mapGet (Labels b) RtbCrbRbLabelsUpdated = ''true'' \<longrightarrow> reconcileLabels c b s = (None, s))
   \<and> (mapGet (Labels b) RtbCrbRbLabelsUpdated \<noteq> ''true'' \<and> reconcileLabels c b s = (None, s') \<longrightarrow>
        (\<exists>obj. snd s' \<noteq> [] \<and> last (snd s') = CrtbClient_Update obj
              \<and> mapGet (Labels obj) RtbCrbRbLabelsUpdated = ''true''
              \<and> reconcileLabels c obj s' = (None, s')))"
proof (intro conjI impI)
  assume "mapGet (Labels b) RtbCrbRbLabelsUpdated = ''true''"
  then show "reconcileLabels c b s = (None, s)" by (simp add: reconcileLabels_def)
next
  assume a: "mapGet (Labels b) RtbCrbRbLabelsUpdated \<noteq> ''true'' \<and> reconcileLabels c b s = (None, s')"
  then obtain s4 where "RetryOnConflict DefaultRetry (updateCRTBLabel c b) s4 = (None, s')"
    using reconcileLabels_completed by blast
  then have "\<exists>s0. updateCRTBLabel c b s0 = (None, s')"
    using retryLoop_success [of DefaultRetry "updateCRTBLabel c b" None s4 s']
    by (simp add: RetryOnConflict_def DefaultRetry_def)
  then obtain obj where "snd s' \<noteq> []" "last (snd s') = CrtbClient_Update obj"
    "mapGet (Labels obj) RtbCrbRbLabelsUpdated = ''true''"
    using updateCRTBLabel_success by blast
  then show "\<exists>obj. snd s' \<noteq> [] \<and> last (snd s') = CrtbClient_Update obj
              \<and> mapGet (Labels obj) RtbCrbRbLabelsUpdated = ''true''
              \<and> reconcileLabels c obj s' = (None, s')"
    by (auto simp: reconcileLabels_def)
qed

theorem reconcileLabels_idempotent_witness:
  "reconcileLabels (kubeLifecycle namespaceAndName) migratedCRTB (oneCluster, []) = (None, (oneCluster, []))
   \<and> mapGet (Labels aliceCRTB) RtbCrbRbLabelsUpdated \<noteq> ''true''
   \<and> reconcileLabels (kubeLifecycle namespaceAndName) aliceCRTB (legacyKube, [])
       = (None, (migratedKube, migrationCalls))
   \<and> last migrationCalls = CrtbClient_Update migratedCRTB
   \<and> reconcileLabels (kubeLifecycle namespaceAndName) migratedCRTB (migratedKube, migrationCalls)
       = (None, (migratedKube, migrationCalls))"
proof -
  let ?c = "kubeLifecycle namespaceAndName"
  have sentinel: "mapGet (Labels migratedCRTB) RtbCrbRbLabelsUpdated = ''true''"
    by (simp add: kube_simps)
  have fresh: "mapGet (Labels aliceCRTB) RtbCrbRbLabelsUpdated \<noteq> ''true''"
    by (simp add: kube_simps)
  have run: "reconcileLabels ?c aliceCRTB (legacyKube, []) = (None, (migratedKube, migrationCalls))"
    by (simp add: reconcileLabels_def kube_simps Let_def)
  have lst: "last migrationCalls = CrtbClient_Update migratedCRTB"
    by (simp add: migrationCalls_def)
  from reconcileLabels_idempotent [of migratedCRTB ?c "(oneCluster, [])"] sentinel
  have first: "reconcileLabels ?c migratedCRTB (oneCluster, []) = (None, (oneCluster, []))"
    by simp
  from reconcileLabels_idempotent [of aliceCRTB ?c "(legacyKube, [])" "(migratedKube, migrationCalls)"]
    fresh run
  obtain obj where "last (snd (migratedKube, migrationCalls)) = CrtbClient_Update obj"
    and again: "reconcileLabels ?c obj (migratedKube, migrationCalls) = (None, (migratedKube, migrationCalls))"
    by blast
  with lst have "obj = migratedCRTB" by simp
  with again first fresh run lst show ?thesis by simp
qed

section \<open>A missing role template\<close>

text \<open>What \<open>apierrors.IsNotFound\<close> says of a status error and of errors that carry no status.\<close>

lemma IsNotFound_StatusError:
  "IsNotFound (StatusError reason code msg)
     = (reason = StatusReasonNotFound \<or> (reason \<notin> set knownReasons \<and> code = 404))"
  by (simp add: IsNotFound_def reasonAndCodeForError_def)

lemma IsNotFound_Errorf: "\<not> IsNotFound (Errorf msg)"
  by (simp add: IsNotFound_def reasonAndCodeForError_def StatusReasonUnknown_def StatusReasonNotFound_def)

text \<open>
  C6. In \<open>reconcileBindings\<close>, when the check of the referenced roles fails with a
  not-found error (one that \<open>apierrors.IsNotFound\<close> accepts: a status of reason
  \<open>NotFound\<close>, or a status of no known reason with code 404), the call logs a warning and
  returns nil; with any other error it returns that error. In both cases nothing was called
  but the cluster lister and the check itself: no binding is ensured and no privilege is
  granted.
\<close>

theorem missing_role_template_skipped:
  assumes "\<not> (UserName b = [] \<and> GroupPrincipalName b = [] \<and> GroupName b = [])"
    and "clusterLister_Get c [] (ClusterName b) w = (Inr (Some cluster), w1)"
    and "mgr_checkReferencedRoles c (RoleTemplateName b) (clusterContext c) 0 w1 = (Inl err, w2)"
  shows "reconcileBindings c b (w, tr) =
     (if IsNotFound err then None else Some err,
      (w2, tr @ [ClusterLister_Get [] (ClusterName b),
                 Mgr_checkReferencedRoles (RoleTemplateName b) (clusterContext c) 0]
             @ (if IsNotFound err
                then [Logrus_Warnf (''ClusterRoleTemplateBinding '' @ Name b
                        @ '' sets a non-existing role template '' @ RoleTemplateName b @ ''. Skipping.'')]
                else [])))"
  using assms by (auto simp: reconcileBindings_def invoke_def Let_def logrus_def)

text \<open>
  A role template that is not there; a check that fails with a bare 404 of unknown reason;
  and a check that is forbidden.
\<close>

theorem missing_role_template_skipped_witness:
  "reconcileBindings (kubeLifecycle namespaceAndName) (mkCRTB ''c-1'' ''crtb1'' ''alice'' ''local://alice'')
       (oneCluster, [])
     = (None, (oneCluster,
          [ClusterLister_Get [] ''c-1'', Mgr_checkReferencedRoles ''cluster-owner'' ''cluster'' 0,
           Logrus_Warnf ''ClusterRoleTemplateBinding crtb1 sets a non-existing role template cluster-owner. Skipping.'']))
   \<and> reconcileBindings (kubeLifecycle namespaceAndName) (mkCRTB ''c-1'' ''crtb1'' ''alice'' ''local://alice'')
       (oneCluster\<lparr>kFaults := [(Mgr_checkReferencedRoles ''cluster-owner'' ''cluster'' 0, pageNotFound)]\<rparr>, [])
     = (None, (oneCluster,
          [ClusterLister_Get [] ''c-1'', Mgr_checkReferencedRoles ''cluster-owner'' ''cluster'' 0,
           Logrus_Warnf ''ClusterRoleTemplateBinding crtb1 sets a non-existing role template cluster-owner. Skipping.'']))
   \<and> reconcileBindings (kubeLifecycle namespaceAndName) (mkCRTB ''c-1'' ''crtb1'' ''alice'' ''local://alice'')
       (oneCluster\<lparr>kFaults := [(Mgr_checkReferencedRoles ''cluster-owner'' ''cluster'' 0, forbidden)]\<rparr>, [])
     = (Some forbidden, (oneCluster,
          [ClusterLister_Get [] ''c-1'', Mgr_checkReferencedRoles ''cluster-owner'' ''cluster'' 0]))"
proof -
  let ?c = "kubeLifecycle namespaceAndName"
  let ?b = "mkCRTB ''c-1'' ''crtb1'' ''alice'' ''local://alice''"
  let ?call = "Mgr_checkReferencedRoles ''cluster-owner'' ''cluster'' 0"
  let ?page = "oneCluster\<lparr>kFaults := [(?call, pageNotFound)]\<rparr>"
  let ?forb = "oneCluster\<lparr>kFaults := [(?call, forbidden)]\<rparr>"
  have subj: "\<not> (UserName ?b = [] \<and> GroupPrincipalName ?b = [] \<and> GroupName ?b = [])"
    by (simp add: kube_simps)
  have get1: "clusterLister_Get ?c [] (ClusterName ?b) oneCluster = (Inr (Some (mkMeta [] ''c-1'' [])), oneCluster)"
    by (simp add: kube_simps)
  have get2: "clusterLister_Get ?c [] (ClusterName ?b) ?page = (Inr (Some (mkMeta [] ''c-1'' [])), ?page)"
    by (simp add: kube_simps)
  have get3: "clusterLister_Get ?c [] (ClusterName ?b) ?forb = (Inr (Some (mkMeta [] ''c-1'' [])), ?forb)"
    by (simp add: kube_simps)
  have chk1: "mgr_checkReferencedRoles ?c (RoleTemplateName ?b) (clusterContext ?c) 0 oneCluster
                = (Inl (notFound ''cluster-owner''), oneCluster)"
    by (simp add: kube_simps)
  have chk2: "mgr_checkReferencedRoles ?c (RoleTemplateName ?b) (clusterContext ?c) 0 ?page
                = (Inl pageNotFound, oneCluster)"
    by (simp add: kube_simps)
  have chk3: "mgr_checkReferencedRoles ?c (RoleTemplateName ?b) (clusterContext ?c) 0 ?forb
                = (Inl forbidden, oneCluster)"
    by (simp add: kube_simps)
  have nf1: "IsNotFound (notFound ''cluster-owner'')"
    by (simp add: notFound_def IsNotFound_StatusError)
  have nf2: "IsNotFound pageNotFound"
    by (simp add: pageNotFound_def IsNotFound_StatusError knownReasons_def StatusReasonUnknown_def
          StatusReasonNotFound_def StatusReasonForbidden_def StatusReasonAlreadyExists_def
          StatusReasonConflict_def)
  have nf3: "\<not> IsNotFound forbidden"
    by (simp add: forbidden_def IsNotFound_StatusError knownReasons_def StatusReasonNotFound_def
          StatusReasonForbidden_def)
  have names: "ClusterName ?b = ''c-1'' \<and> RoleTemplateName ?b = ''cluster-owner'' \<and> Name ?b = ''crtb1''
                 \<and> clusterContext ?c = ''cluster''"
    by (simp add: kube_simps)
  from missing_role_template_skipped [OF subj get1 chk1, of "[]"] nf1 names
  have r1: "reconcileBindings ?c ?b (oneCluster, [])
     = (None, (oneCluster,
          [ClusterLister_Get [] ''c-1'', ?call,
           Logrus_Warnf ''ClusterRoleTemplateBinding crtb1 sets a non-existing role template cluster-owner. Skipping.'']))"
    by simp
  from missing_role_template_skipped [OF subj get2 chk2, of "[]"] nf2 names
  have r2: "reconcileBindings ?c ?b (?page, [])
     = (None, (oneCluster,
          [ClusterLister_Get [] ''c-1'', ?call,
           Logrus_Warnf ''ClusterRoleTemplateBinding crtb1 sets a non-existing role template cluster-owner. Skipping.'']))"
    by simp
  from missing_role_template_skipped [OF subj get3 chk3, of "[]"] nf3 names
  have r3: "reconcileBindings ?c ?b (?forb, [])
     = (Some forbidden, (oneCluster, [ClusterLister_Get [] ''c-1'', ?call]))"
    by simp
  from r1 r2 r3 show ?thesis by simp
qed

section \<open>Failures inside the migration\<close>

text \<open>
  What holds once both lists have been read: every listed cluster role binding and every
  listed role binding is attempted (each has an outcome, and the log holds its \<open>Get\<close>),
  whatever the outcomes of the items before it. The outcomes are joined one after the other
  into one error, which is nil exactly when no item failed; when it is not nil,
  \<open>reconcileLabels\<close> returns it, in the state reached after the last item.
\<close>

lemma relabel_batches_attempt_all:
  assumes "mapGet (Labels b) RtbCrbRbLabelsUpdated \<noteq> ''true''"
    and "getLabelRequirements c (metaOf b) = Inr reqs"
    and "crbLister_List c NamespaceAll (Add (AsSelector [(UID b, MembershipBindingOwnerLegacy)]) reqs) w
           = (Inr crbs, w1)"
    and "attemptEach (\<lambda>crb. RetryOnConflict DefaultRetry
                               (updateCRBLabels c (pkgrbac_GetRTBLabel c (metaOf b)) crb)) crbs
           (w1, tr @ [CrbLister_List NamespaceAll
                        (Add (AsSelector [(UID b, MembershipBindingOwnerLegacy)]) reqs)])
           = (outs1, (w2, tr2))"
    and "rbLister_List c NamespaceAll (Add (AsSelector [(UID b, CrtbInProjectBindingOwner)]) reqs) w2
           = (Inr rbs, w3)"
    and "attemptEach (\<lambda>rb. RetryOnConflict DefaultRetry
                              (updateRBLabels c (pkgrbac_GetRTBLabel c (metaOf b)) rb)) rbs
           (w3, tr2 @ [RbLister_List NamespaceAll
                         (Add (AsSelector [(UID b, CrtbInProjectBindingOwner)]) reqs)])
           = (outs2, (w4, tr4))"
  shows "length outs1 = length crbs \<and> length outs2 = length rbs
       \<and> (\<forall>crb \<in> set crbs. CrbClient_Get (Name crb) \<in> set tr4)
       \<and> (\<forall>rb \<in> set rbs. RbClient_GetNamespaced (Namespace rb) (Name rb) \<in> set tr4)
       \<and> (errors_JoinAll (outs1 @ outs2) = None \<longleftrightarrow> (\<forall>e \<in> set (outs1 @ outs2). e = None))
       \<and> (\<forall>err. errors_JoinAll (outs1 @ outs2) = Some err
             \<longrightarrow> reconcileLabels c b (w, tr) = (Some err, (w4, tr4)))"
proof -
  let ?Q = "\<lambda>e. \<not> isCrtbClientCall e"
  have len: "length outs1 = length crbs" "length outs2 = length rbs"
    using attemptEach_length [OF assms(4)] attemptEach_length [OF assms(6)] by simp_all
  have later: "callsAppended ?Q (w2, tr2) (w4, tr4)"
  proof -
    have "callsAppended ?Q (w2, tr2)
            (w3, tr2 @ [RbLister_List NamespaceAll
                          (Add (AsSelector [(UID b, CrtbInProjectBindingOwner)]) reqs)])"
      by (simp add: callsAppended_def)
    moreover have "callsAppended ?Q
            (w3, tr2 @ [RbLister_List NamespaceAll
                          (Add (AsSelector [(UID b, CrtbInProjectBindingOwner)]) reqs)]) (w4, tr4)"
      by (rule attemptEach_appended [OF _ assms(6)]) (rule retry_rb_appended)
    ultimately show ?thesis by (rule callsAppended_trans)
  qed
  have crb: "\<forall>crb \<in> set crbs. CrbClient_Get (Name crb) \<in> set tr4"
  proof
    fix crb assume "crb \<in> set crbs"
    with attemptEach_logged [where call = "\<lambda>x. CrbClient_Get (Name x)" and Q = ?Q, OF _ _ assms(4)]
    have "CrbClient_Get (Name crb) \<in> set tr2"
      using retry_crb_appended retry_crb_logged by fastforce
    with callsAppended_mono [OF later] show "CrbClient_Get (Name crb) \<in> set tr4" by simp
  qed
  have rb: "\<forall>rb \<in> set rbs. RbClient_GetNamespaced (Namespace rb) (Name rb) \<in> set tr4"
  proof
    fix rb assume "rb \<in> set rbs"
    with attemptEach_logged [where call = "\<lambda>x. RbClient_GetNamespaced (Namespace x) (Name x)"
           and Q = ?Q, OF _ _ assms(6)]
    show "RbClient_GetNamespaced (Namespace rb) (Name rb) \<in> set tr4"
      using retry_rb_appended retry_rb_logged by fastforce
  qed
  have surfaced: "\<forall>err. errors_JoinAll (outs1 @ outs2) = Some err
             \<longrightarrow> reconcileLabels c b (w, tr) = (Some err, (w4, tr4))"
    using reconcileLabels_batches [OF assms] by simp
  from len crb rb surfaced show ?thesis by (simp add: errors_JoinAll_None)
qed

lemma relabel_batches_attempt_all_example:
  "reconcileLabels (kubeLifecycle namespaceAndName) aliceCRTB (legacyKubeCrbFails, [])
     = (Some (JoinError [JoinError [forbidden]]),
        (legacyKube\<lparr>kRoleBindings := [relabelledRB]\<rparr>,
         [CrbLister_List [] legacyCRBSelector, CrbClient_Get ''crb-1'',
          RbLister_List [] legacyRBSelector, RbClient_GetNamespaced ''p-1'' ''rb-legacy'',
          RbClient_Update relabelledRB]))
   \<and> CrbClient_Get (Name legacyCRB)
       \<in> set [CrbLister_List [] legacyCRBSelector, CrbClient_Get ''crb-1'',
               RbLister_List [] legacyRBSelector, RbClient_GetNamespaced ''p-1'' ''rb-legacy'',
               RbClient_Update relabelledRB]
   \<and> RbClient_GetNamespaced (Namespace legacyRB) (Name legacyRB)
       \<in> set [CrbLister_List [] legacyCRBSelector, CrbClient_Get ''crb-1'',
               RbLister_List [] legacyRBSelector, RbClient_GetNamespaced ''p-1'' ''rb-legacy'',
               RbClient_Update relabelledRB]"
proof -
  let ?c = "kubeLifecycle namespaceAndName"
  let ?key = "pkgrbac_GetRTBLabel ?c (metaOf aliceCRTB)"
  let ?sel1 = "Add (AsSelector [(UID aliceCRTB, MembershipBindingOwnerLegacy)]) []"
  let ?sel2 = "Add (AsSelector [(UID aliceCRTB, CrtbInProjectBindingOwner)]) []"
  let ?tr2 = "[CrbLister_List [] legacyCRBSelector, CrbClient_Get ''crb-1'']"
  let ?w4 = "legacyKube\<lparr>kRoleBindings := [relabelledRB]\<rparr>"
  let ?tr4 = "[CrbLister_List [] legacyCRBSelector, CrbClient_Get ''crb-1'',
               RbLister_List [] legacyRBSelector, RbClient_GetNamespaced ''p-1'' ''rb-legacy'',
               RbClient_Update relabelledRB]"
  have h1: "mapGet (Labels aliceCRTB) RtbCrbRbLabelsUpdated \<noteq> ''true''"
    by (simp add: kube_simps)
  have h2: "getLabelRequirements ?c (metaOf aliceCRTB) = Inr []"
    by (simp add: kube_simps)
  have h3: "crbLister_List ?c NamespaceAll ?sel1 legacyKubeCrbFails = (Inr [legacyCRB], legacyKubeCrbFails)"
    by (simp add: kube_simps)
  have h4: "attemptEach (\<lambda>crb. RetryOnConflict DefaultRetry (updateCRBLabels ?c ?key crb)) [legacyCRB]
              (legacyKubeCrbFails, [] @ [CrbLister_List NamespaceAll ?sel1])
              = ([Some forbidden], (legacyKube, ?tr2))"
    by (simp add: kube_simps Let_def)
  have h5: "rbLister_List ?c NamespaceAll ?sel2 legacyKube = (Inr [legacyRB], legacyKube)"
    by (simp add: kube_simps)
  have h6: "attemptEach (\<lambda>rb. RetryOnConflict DefaultRetry (updateRBLabels ?c ?key rb)) [legacyRB]
              (legacyKube, ?tr2 @ [RbLister_List NamespaceAll ?sel2])
              = ([None], (?w4, ?tr4))"
    by (simp add: kube_simps Let_def)
  have joined: "errors_JoinAll ([Some forbidden] @ [None]) = Some (JoinError [JoinError [forbidden]])"
    by (simp add: errors_JoinAll_def errors_Join_def List.map_filter_def)
  from relabel_batches_attempt_all [OF h1 h2 h3 h4 h5 h6] joined
  show ?thesis by simp
qed

text \<open>
  C7. The claim is that the errors of the items that could not be relabelled are joined
  into one error that \<open>reconcileLabels\<close> returns once all items have been processed.
  \<open>reconcileLabels\<close> carries the joined error in \<open>returnErr\<close> from the first loop to
  the second, but between the loops it returns the error of the list of role bindings alone.
  In the run below the one cluster role binding cannot be read (forbidden), so the first
  loop ends with \<open>returnErr\<close> holding that error; then the list of the role bindings
  fails, and \<open>reconcileLabels\<close> returns the error of the list: the error of the cluster
  role binding is in no error that is returned.
\<close>

theorem relabel_error_lost_when_list_fails:
  "relabelCRBs (kubeLifecycle namespaceAndName)
       (pkgrbac_GetRTBLabel (kubeLifecycle namespaceAndName) (metaOf aliceCRTB))
       [legacyCRB] None (legacyKubeListFails, [CrbLister_List [] legacyCRBSelector])
     = (Some (JoinError [forbidden]),
        (legacyKube\<lparr>kFaults := [(RbLister_List [] legacyRBSelector, indexMissing)]\<rparr>,
         [CrbLister_List [] legacyCRBSelector, CrbClient_Get ''crb-1'']))
   \<and> reconcileLabels (kubeLifecycle namespaceAndName) aliceCRTB (legacyKubeListFails, [])
     = (Some indexMissing,
        (legacyKube,
         [CrbLister_List [] legacyCRBSelector, CrbClient_Get ''crb-1'', RbLister_List [] legacyRBSelector]))
   \<and> indexMissing = Errorf ''index with name namespace does not exist''
   \<and> forbidden = StatusError StatusReasonForbidden 403 ''roletemplates is forbidden''"
proof -
  have loop: "relabelCRBs (kubeLifecycle namespaceAndName)
       (pkgrbac_GetRTBLabel (kubeLifecycle namespaceAndName) (metaOf aliceCRTB))
       [legacyCRB] None (legacyKubeListFails, [CrbLister_List [] legacyCRBSelector])
     = (Some (JoinError [forbidden]),
        (legacyKube\<lparr>kFaults := [(RbLister_List [] legacyRBSelector, indexMissing)]\<rparr>,
         [CrbLister_List [] legacyCRBSelector, CrbClient_Get ''crb-1'']))"
    by (simp add: kube_simps Let_def)
  have run: "reconcileLabels (kubeLifecycle namespaceAndName) aliceCRTB (legacyKubeListFails, [])
     = (Some indexMissing,
        (legacyKube,
         [CrbLister_List [] legacyCRBSelector, CrbClient_Get ''crb-1'', RbLister_List [] legacyRBSelector]))"
    by (simp add: reconcileLabels_def kube_simps Let_def)
  from loop run show ?thesis by (simp add: indexMissing_def forbidden_def)
qed

section \<open>Adding minutes to a time\<close>

lemma sint_Minute_mult:
  fixes ttl :: "64 word"
  assumes "- 153722867 \<le> sint ttl" "sint ttl \<le> 153722867"
  shows "sint (Minute * ttl) = 60000000000 * sint ttl"
proof -
  have m: "sint (60000000000 :: 64 word) = 60000000000" by simp
  have "sint (Minute * ttl) = signed_take_bit 63 (60000000000 * sint ttl)"
    by (simp add: Minute_def sint_word_ariths m)
  also have "\<dots> = 60000000000 * sint ttl"
    using assms by (intro signed_take_bit_int_eq_self) simp_all
  finally show ?thesis .
qed

lemma sdiv_seconds: "(60000000000 * (k::int)) sdiv 1000000000 = 60 * k"
proof (cases "0 \<le> k")
  case True
  then have "\<bar>60000000000 * k\<bar> = 1000000000 * (60 * k)" by simp
  then have "\<bar>60000000000 * k\<bar> div 1000000000 = 60 * k" by simp
  moreover have "sgn (60000000000 * k) = sgn k" by (simp add: sgn_mult)
  ultimately show ?thesis using True
    by (cases "k = 0") (simp_all add: signed_divide_int_def)
next
  case False
  then have "\<bar>60000000000 * k\<bar> = 1000000000 * (60 * (- k))" by simp
  then have "\<bar>60000000000 * k\<bar> div 1000000000 = 60 * (- k)" by simp
  moreover have "sgn (60000000000 * k) = sgn k" by (simp add: sgn_mult)
  ultimately show ?thesis using False
    by (simp add: signed_divide_int_def)
qed

lemma smod_seconds: "(60000000000 * (k::int)) smod 1000000000 = 0"
proof -
  have "\<bar>60000000000 * k\<bar> = 1000000000 * (60 * \<bar>k\<bar>)" by (simp add: abs_mult)
  then have "\<bar>60000000000 * k\<bar> mod 1000000000 = 0" by simp
  then show ?thesis by (simp add: signed_modulo_int_def)
qed

lemma sint_seconds:
  fixes ttl :: "64 word"
  assumes "- 153722867 \<le> sint ttl" "sint ttl \<le> 153722867"
  shows "sint (60 * ttl) = 60 * sint ttl"
proof -
  have m: "sint (60 :: 64 word) = 60" by simp
  have "sint (60 * ttl) = signed_take_bit 63 (60 * sint ttl)"
    by (simp add: sint_word_ariths m)
  also have "\<dots> = 60 * sint ttl"
    using assms by (intro signed_take_bit_int_eq_self) simp_all
  finally show ?thesis .
qed

lemma addSec_exact:
  assumes "- 9223372036854775808 \<le> sint e + sint d" "sint e + sint d \<le> 9223372036854775807"
  shows "sint (addSec e d) = sint e + sint d"
proof -
  have sum: "sint (e + d) = sint e + sint d"
    using assms by (simp add: sint_word_ariths signed_take_bit_int_eq_self)
  then show ?thesis by (auto simp: addSec_def Let_def)
qed

lemma Time_Add_minutes:
  assumes "- 153722867 \<le> sint ttl" "sint ttl \<le> 153722867"
    and "0 \<le> nsec la" "nsec la < 1000000000"
    and "- 9223372036854775808 \<le> sint (ext la) + 60 * sint ttl"
    and "sint (ext la) + 60 * sint ttl \<le> 9223372036854775807"
  shows "nanos (UTC (Time_Add la (Minute * ttl))) = nanos la + sint ttl * 60000000000"
proof -
  have d: "sint (Minute * ttl) = 60000000000 * sint ttl"
    by (rule sint_Minute_mult [OF assms(1,2)])
  have s: "sint (60 * ttl) = 60 * sint ttl"
    by (rule sint_seconds [OF assms(1,2)])
  have a: "sint (addSec (ext la) (60 * ttl)) = sint (ext la) + 60 * sint ttl"
    using assms(5,6) by (simp add: addSec_exact s)
  have "Time_Add la (Minute * ttl) = la\<lparr>nsec := nsec la, ext := addSec (ext la) (60 * ttl)\<rparr>"
    using assms(3,4) by (simp add: Time_Add_def Let_def d sdiv_seconds smod_seconds)
  then show ?thesis by (simp add: nanos_def UTC_def a)
qed

section \<open>Creating a user activity\<close>

text \<open>
  With an idle setting of 153722868 minutes the duration \<open>time.Minute * 153722868\<close> no
  longer fits 64 bits and wraps to a negative number of nanoseconds.
\<close>

lemma Time_Add_wrapped: "UTC (Time_Add noon (Minute * 153722868)) = wrappedTimeout"
  by (simp add: Time_Add_def UTC_def Minute_def Let_def activity_simps addSec_def
        signed_divide_int_def signed_modulo_int_def)

text \<open>
  C8. When the name of the user activity is the one \<open>setUserActivityName\<close> gives for the
  user and the token, the token named in its spec is the token at hand and the update of the
  token succeeds, \<open>Store.create\<close> returns the user activity with \<open>LastActivity\<close> the
  formatting of the last-activity time and \<open>CurrentTimeout\<close> the formatting of the new
  idle timeout, and the one call it makes updates the token with \<open>LastIdleTimeout\<close> set to
  that same time. The new idle timeout is the last-activity time moved by the duration
  \<open>time.Minute * ttl\<close>, a product of 64-bit integers: it is the instant exactly \<open>ttl\<close>
  minutes after the last activity when \<open>ttl\<close> is between -153722867 and 153722867 (so that
  the product does not wrap) and the seconds of the result fit 64 bits. When the name differs
  from the expected one, the token's name differs from the one in the spec, or no name can
  be built, an error is returned, no call is made and nothing changes.
\<close>

theorem create_extends_idle_timeout:
  "(\<forall>updated w'. setUserActivityName uas user (Name token) = Inr (Name ua)
        \<and> Name token = Spec_TokenId ua
        \<and> tokenController_Update uas (token\<lparr>LastIdleTimeout := UTC (Time_Add la (Minute * ttl))\<rparr>) w
            = (Inr updated, w')
      \<longrightarrow> Store_create uas ua token user la ttl (w, tr)
            = ((Some (ua\<lparr>Status_LastActivity := Time_String uas la,
                         Status_CurrentTimeout := Time_String uas (UTC (Time_Add la (Minute * ttl)))\<rparr>),
                None),
               (w', tr @ [TokenController_Update
                            (token\<lparr>LastIdleTimeout := UTC (Time_Add la (Minute * ttl))\<rparr>)])))
   \<and> (- 153722867 \<le> sint ttl \<and> sint ttl \<le> 153722867
        \<and> 0 \<le> nsec la \<and> nsec la < 1000000000
        \<and> - 9223372036854775808 \<le> sint (ext la) + 60 * sint ttl
        \<and> sint (ext la) + 60 * sint ttl \<le> 9223372036854775807
      \<longrightarrow> nanos (UTC (Time_Add la (Minute * ttl))) = nanos la + sint ttl * 60000000000)
   \<and> (\<forall>expectedName. setUserActivityName uas user (Name token) = Inr expectedName
        \<and> (Name ua \<noteq> expectedName \<or> Name token \<noteq> Spec_TokenId ua)
      \<longrightarrow> (\<exists>err. Store_create uas ua token user la ttl (w, tr) = ((None, Some err), (w, tr))))
   \<and> (\<forall>e. setUserActivityName uas user (Name token) = Inl e
      \<longrightarrow> (\<exists>err. Store_create uas ua token user la ttl (w, tr) = ((None, Some err), (w, tr))))"
proof (intro conjI allI impI)
  fix updated w'
  assume "setUserActivityName uas user (Name token) = Inr (Name ua)
        \<and> Name token = Spec_TokenId ua
        \<and> tokenController_Update uas (token\<lparr>LastIdleTimeout := UTC (Time_Add la (Minute * ttl))\<rparr>) w
            = (Inr updated, w')"
  then have a: "setUserActivityName uas user (Name token) = Inr (Name ua)"
    and b: "Spec_TokenId ua = Name token"
    and c: "tokenController_Update uas (token\<lparr>LastIdleTimeout := UTC (Time_Add la (Minute * ttl))\<rparr>) w
              = (Inr updated, w')"
    by (rule conjunct1, rule sym [OF conjunct1 [OF conjunct2]], rule conjunct2 [OF conjunct2])
  show "Store_create uas ua token user la ttl (w, tr)
            = ((Some (ua\<lparr>Status_LastActivity := Time_String uas la,
                         Status_CurrentTimeout := Time_String uas (UTC (Time_Add la (Minute * ttl)))\<rparr>),
                None),
               (w', tr @ [TokenController_Update
                            (token\<lparr>LastIdleTimeout := UTC (Time_Add la (Minute * ttl))\<rparr>)]))"
    by (simp add: Store_create_def invoke_def Let_def a b c)
next
  assume "- 153722867 \<le> sint ttl \<and> sint ttl \<le> 153722867
        \<and> 0 \<le> nsec la \<and> nsec la < 1000000000
        \<and> - 9223372036854775808 \<le> sint (ext la) + 60 * sint ttl
        \<and> sint (ext la) + 60 * sint ttl \<le> 9223372036854775807"
  then show "nanos (UTC (Time_Add la (Minute * ttl))) = nanos la + sint ttl * 60000000000"
    by (intro Time_Add_minutes) simp_all
next
  fix expectedName
  assume "setUserActivityName uas user (Name token) = Inr expectedName
        \<and> (Name ua \<noteq> expectedName \<or> Name token \<noteq> Spec_TokenId ua)"
  then show "\<exists>err. Store_create uas ua token user la ttl (w, tr) = ((None, Some err), (w, tr))"
    by (auto simp: Store_create_def)
next
  fix e
  assume "setUserActivityName uas user (Name token) = Inl e"
  then show "\<exists>err. Store_create uas ua token user la ttl (w, tr) = ((None, Some err), (w, tr))"
    by (simp add: Store_create_def)
qed

text \<open>
  A run on the tokens held in memory with 960 minutes; a user activity named after another
  user; one that names another token; and an empty user name.
\<close>

theorem create_extends_idle_timeout_witness:
  "Store_create memActivityStore activity activityToken ''alice'' noon 960 (activityWorld, [])
     = ((Some (activity\<lparr>Status_LastActivity := Time_String memActivityStore noon,
                  Status_CurrentTimeout :=
                    Time_String memActivityStore (UTC (Time_Add noon (Minute * 960)))\<rparr>), None),
        (activityWorld\<lparr>awTokens :=
             [activityToken\<lparr>LastIdleTimeout := UTC (Time_Add noon (Minute * 960))\<rparr>]\<rparr>,
         [TokenController_Update (activityToken\<lparr>LastIdleTimeout := UTC (Time_Add noon (Minute * 960))\<rparr>)]))
   \<and> nanos (UTC (Time_Add noon (Minute * 960))) = nanos noon + 960 * 60000000000
   \<and> (\<exists>err. Store_create memActivityStore (mkUserActivity ''bob:token-1'' ''token-1'') activityToken
                ''alice'' noon 960 (activityWorld, []) = ((None, Some err), (activityWorld, [])))
   \<and> (\<exists>err. Store_create memActivityStore (mkUserActivity ''alice:token-1'' ''token-2'') activityToken
                ''alice'' noon 960 (activityWorld, []) = ((None, Some err), (activityWorld, [])))
   \<and> (\<exists>err. Store_create memActivityStore activity activityToken [] noon 960 (activityWorld, [])
                = ((None, Some err), (activityWorld, [])))"
proof -
  let ?T = "UTC (Time_Add noon (Minute * 960))"
  let ?w = "activityWorld\<lparr>awTokens := [activityToken\<lparr>LastIdleTimeout := ?T\<rparr>]\<rparr>"
  have h1: "setUserActivityName memActivityStore ''alice'' (Name activityToken) = Inr (Name activity)
        \<and> Name activityToken = Spec_TokenId activity
        \<and> tokenController_Update memActivityStore (activityToken\<lparr>LastIdleTimeout := ?T\<rparr>) activityWorld
            = (Inr (activityToken\<lparr>LastIdleTimeout := ?T\<rparr>), ?w)"
    by (simp add: activity_simps)
  have h2: "- 153722867 \<le> sint (960 :: 64 word) \<and> sint (960 :: 64 word) \<le> 153722867
        \<and> 0 \<le> nsec noon \<and> nsec noon < 1000000000
        \<and> - 9223372036854775808 \<le> sint (ext noon) + 60 * sint (960 :: 64 word)
        \<and> sint (ext noon) + 60 * sint (960 :: 64 word) \<le> 9223372036854775807"
    by (simp add: activity_simps)
  have h3: "setUserActivityName memActivityStore ''alice'' (Name activityToken) = Inr ''alice:token-1''
        \<and> (Name (mkUserActivity ''bob:token-1'' ''token-1'') \<noteq> ''alice:token-1''
             \<or> Name activityToken \<noteq> Spec_TokenId (mkUserActivity ''bob:token-1'' ''token-1''))"
    by (simp add: activity_simps)
  have h4: "setUserActivityName memActivityStore ''alice'' (Name activityToken) = Inr ''alice:token-1''
        \<and> (Name (mkUserActivity ''alice:token-1'' ''token-2'') \<noteq> ''alice:token-1''
             \<or> Name activityToken \<noteq> Spec_TokenId (mkUserActivity ''alice:token-1'' ''token-2''))"
    by (simp add: activity_simps)
  have h5: "setUserActivityName memActivityStore [] (Name activityToken) = Inl (Errorf ''empty name'')"
    by (simp add: activity_simps)
  have s960: "sint (960 :: 64 word) = 960" by simp
  note run = create_extends_idle_timeout [of memActivityStore "''alice''" activityToken activity noon 960
                activityWorld "[]"]
  note bob = create_extends_idle_timeout [of memActivityStore "''alice''" activityToken
                "mkUserActivity ''bob:token-1'' ''token-1''" noon 960 activityWorld "[]"]
  note other = create_extends_idle_timeout [of memActivityStore "''alice''" activityToken
                "mkUserActivity ''alice:token-1'' ''token-2''" noon 960 activityWorld "[]"]
  note anon = create_extends_idle_timeout [of memActivityStore "[]" activityToken activity noon 960
                activityWorld "[]"]
  from run h1 have c1: "Store_create memActivityStore activity activityToken ''alice'' noon 960 (activityWorld, [])
     = ((Some (activity\<lparr>Status_LastActivity := Time_String memActivityStore noon,
                  Status_CurrentTimeout := Time_String memActivityStore ?T\<rparr>), None),
        (?w, [] @ [TokenController_Update (activityToken\<lparr>LastIdleTimeout := ?T\<rparr>)]))"
    by blast
  from run h2 have "nanos ?T = nanos noon + sint (960 :: 64 word) * 60000000000"
    by blast
  then have c2: "nanos ?T = nanos noon + 960 * 60000000000"
    by (simp only: s960)
  from bob h3 have c3: "\<exists>err. Store_create memActivityStore (mkUserActivity ''bob:token-1'' ''token-1'')
       activityToken ''alice'' noon 960 (activityWorld, []) = ((None, Some err), (activityWorld, []))"
    by blast
  from other h4 have c4: "\<exists>err. Store_create memActivityStore (mkUserActivity ''alice:token-1'' ''token-2'')
       activityToken ''alice'' noon 960 (activityWorld, []) = ((None, Some err), (activityWorld, []))"
    by blast
  from anon h5 have c5: "\<exists>err. Store_create memActivityStore activity activityToken [] noon 960
       (activityWorld, []) = ((None, Some err), (activityWorld, []))"
    by blast
  from c1 c2 c3 c4 c5 show ?thesis by simp
qed

text \<open>
  With 153722868 minutes the same successful run sets the idle timeout to an instant some
  292 years before the last activity, not 153722868 minutes after it.
\<close>

theorem idle_timeout_wraps_counterexample:
  "sint (153722868 :: 64 word) = 153722868
   \<and> Store_create memActivityStore activity activityToken ''alice'' noon 153722868 (activityWorld, [])
       = ((Some (activity\<lparr>Status_LastActivity := Time_String memActivityStore noon,
                    Status_CurrentTimeout := Time_String memActivityStore wrappedTimeout\<rparr>), None),
          (activityWorld\<lparr>awTokens := [activityToken\<lparr>LastIdleTimeout := wrappedTimeout\<rparr>]\<rparr>,
           [TokenController_Update (activityToken\<lparr>LastIdleTimeout := wrappedTimeout\<rparr>)]))
   \<and> nanos noon = 63800000000000000000
   \<and> nanos wrappedTimeout = 54576628006290448384
   \<and> nanos wrappedTimeout < nanos noon
   \<and> nanos wrappedTimeout \<noteq> nanos noon + 153722868 * 60000000000"
proof -
  have run: "Store_create memActivityStore activity activityToken ''alice'' noon 153722868 (activityWorld, [])
       = ((Some (activity\<lparr>Status_LastActivity := Time_String memActivityStore noon,
                    Status_CurrentTimeout := Time_String memActivityStore
                       (UTC (Time_Add noon (Minute * 153722868)))\<rparr>), None),
          (activityWorld\<lparr>awTokens :=
              [activityToken\<lparr>LastIdleTimeout := UTC (Time_Add noon (Minute * 153722868))\<rparr>]\<rparr>,
           [TokenController_Update
              (activityToken\<lparr>LastIdleTimeout := UTC (Time_Add noon (Minute * 153722868))\<rparr>)]))"
    by (simp add: Store_create_def invoke_def Let_def memActivityStore_def activityToken_def activity_def
          activityWorld_def mkActivityToken_def mkUserActivity_def emptyMeta_def getObject_def sameKey_def
          putObject_def ObjectMeta.extend_def Token.fields_def UserActivity.fields_def)
  have n1: "nanos noon = 63800000000000000000"
    by (simp add: nanos_def noon_def mkTime_def)
  have n2: "nanos wrappedTimeout = 54576628006290448384"
    by (simp add: nanos_def wrappedTimeout_def)
  have s: "sint (153722868 :: 64 word) = 153722868" by simp
  from run n1 n2 s show ?thesis by (simp add: Time_Add_wrapped)
qed

section \<open>Where the plaintext of a token goes\<close>

lemma listTokens_plaintext:
  "list_all (\<lambda>x. Status_PlaintextToken x = []) acc
     \<Longrightarrow> list_all (\<lambda>x. Status_PlaintextToken x = []) (listTokens authed userInfo secrets acc)"
  by (induction authed userInfo secrets acc rule: listTokens.induct)
     (auto simp: Let_def tokenFromSecret_def RancherToken.fields_def ObjectMeta.extend_def)

text \<open>
  What holds on every path: the token that \<open>Update\<close> returns has an empty plaintext
  field, and \<open>Update\<close> does not depend on the plaintext and hashed fields the caller sent;
  \<open>Get\<close> returns no token at all; the tokens that \<open>List\<close> returns have an empty
  plaintext field; and \<open>secretFromToken\<close> does not read the plaintext field.
\<close>

lemma plaintext_stripped:
  "(\<forall>new. fst (fst (TokenStore_Update t userInfo token s)) = Some new \<longrightarrow> Status_PlaintextToken new = [])
   \<and> TokenStore_Update t userInfo (token\<lparr>Status_PlaintextToken := p, Status_HashedToken := h\<rparr>) s
       = TokenStore_Update t userInfo token s
   \<and> fst (fst (TokenStore_Get t userInfo name s)) = None
   \<and> (\<forall>tokens. fst (fst (TokenStore_List t userInfo s)) = Some tokens
        \<longrightarrow> list_all (\<lambda>x. Status_PlaintextToken x = []) tokens)
   \<and> secretFromToken (token\<lparr>Status_PlaintextToken := p\<rparr>) = secretFromToken token"
proof (intro conjI allI impI)
  fix new
  assume "fst (fst (TokenStore_Update t userInfo token s)) = Some new"
  then show "Status_PlaintextToken new = []"
    by (auto simp: TokenStore_Update_def Let_def split: prod.splits option.splits sum.splits)
next
  show "TokenStore_Update t userInfo (token\<lparr>Status_PlaintextToken := p, Status_HashedToken := h\<rparr>) s
       = TokenStore_Update t userInfo token s"
    by (auto simp: TokenStore_Update_def Let_def split: prod.splits option.splits sum.splits)
next
  show "fst (fst (TokenStore_Get t userInfo name s)) = None"
    by (simp add: TokenStore_Get_def Let_def split: prod.splits option.splits sum.splits)
next
  fix tokens
  assume "fst (fst (TokenStore_List t userInfo s)) = Some tokens"
  then show "list_all (\<lambda>x. Status_PlaintextToken x = []) tokens"
    by (auto simp: TokenStore_List_def listTokens_plaintext split: prod.splits sum.splits)
next
  show "secretFromToken (token\<lparr>Status_PlaintextToken := p\<rparr>) = secretFromToken token"
    by (simp add: secretFromToken_def)
qed

text \<open>
  The path on which \<open>Create\<close> makes the value itself: a token of the caller's own that
  comes with an empty plaintext field. The value is generated and hashed, the one secret
  written carries the token's fields and that hash, and the token is returned with the
  generated value as plaintext and no hash.
\<close>

lemma create_generated:
  assumes "Status_PlaintextToken token = []"
    and "Spec_UserID token = GetName userInfo"
    and "randomtoken_Generate t w = (Inr v, w1)"
    and "hashers_CreateHash t v w1 = (Inr hashed, w2)"
    and "secretClient_Create t (secretFromToken (token\<lparr>Status_HashedToken := hashed\<rparr>)) w2
           = (Inr created, w3)"
  shows "TokenStore_Create t userInfo token (w, tr)
       = ((Some (token\<lparr>Status_PlaintextToken := v, Status_HashedToken := []\<rparr>), None),
          (w3, tr @ [Randomtoken_Generate, Hashers_CreateHash v,
                     SecretClient_Create (secretFromToken (token\<lparr>Status_HashedToken := hashed\<rparr>))]))"
proof -
  let ?tok = "token\<lparr>Status_PlaintextToken := v, Status_HashedToken := hashed\<rparr>"
  have gen: "generateTokenValue t token (w, tr)
               = (Inr ?tok, (w2, tr @ [Randomtoken_Generate, Hashers_CreateHash v]))"
    using assms(1,3,4) by (simp add: generateTokenValue_def invoke_def)
  have sec: "secretFromToken ?tok = secretFromToken (token\<lparr>Status_HashedToken := hashed\<rparr>)"
    by (simp add: secretFromToken_def)
  have own: "checkOtherUser t userInfo (Spec_UserID token) (w2, tr @ [Randomtoken_Generate, Hashers_CreateHash v])
               = (None, (w2, tr @ [Randomtoken_Generate, Hashers_CreateHash v]))"
    using assms(2) by (simp add: checkOtherUser_def)
  show ?thesis
    by (simp add: TokenStore_Create_def gen own sec assms(5) invoke_def Let_def)
qed

text \<open>
  C4. The claim is that the plaintext value of a token is seen only in what a successful
  \<open>Create\<close> returns and is never written to the secret, for every token that comes in.
  \<open>Create\<close> generates and hashes a value only when the token comes with an empty
  plaintext field; a token that comes with a plaintext of its own is stored as it is, with
  whatever the caller put in the hashed field. In the run below the caller sends the same
  value as plaintext and as hash: no value is generated and nothing is hashed, the secret
  that is written and stored holds the plaintext value under \<open>hashedToken\<close>, the token is
  returned with that plaintext, and a \<open>List\<close> afterwards returns the value in the hashed
  field of the token.
\<close>

theorem create_persists_caller_plaintext:
  "Status_PlaintextToken leakyToken = ''s3cret''
   \<and> Status_HashedToken leakyToken = ''s3cret''
   \<and> TokenStore_Create memTokenStore (mkUser ''alice'') leakyToken (noSecrets, [])
       = ((Some (leakyToken\<lparr>Status_HashedToken := []\<rparr>), None),
          (leakedSecrets, [SecretClient_Create (secretFromToken leakyToken)]))
   \<and> Status_PlaintextToken (leakyToken\<lparr>Status_HashedToken := []\<rparr>) = ''s3cret''
   \<and> mapGet (StringData (secretFromToken leakyToken)) ''hashedToken'' = ''s3cret''
   \<and> twSecrets leakedSecrets = [persisted (secretFromToken leakyToken)]
   \<and> mapGet (Data (persisted (secretFromToken leakyToken))) ''hashedToken'' = ''s3cret''
   \<and> fst (TokenStore_List memTokenStore (mkUser ''alice'') (leakedSecrets, []))
       = (Some [tokenFromSecret (persisted (secretFromToken leakyToken))], None)
   \<and> Status_HashedToken (tokenFromSecret (persisted (secretFromToken leakyToken))) = ''s3cret''"
proof -
  have create: "TokenStore_Create memTokenStore (mkUser ''alice'') leakyToken (noSecrets, [])
       = ((Some (leakyToken\<lparr>Status_HashedToken := []\<rparr>), None),
          (leakedSecrets, [SecretClient_Create (secretFromToken leakyToken)]))"
    by (simp add: TokenStore_Create_def generateTokenValue_def checkOtherUser_def invoke_def Let_def
          token_simps)
  have list: "fst (TokenStore_List memTokenStore (mkUser ''alice'') (leakedSecrets, []))
       = (Some [tokenFromSecret (persisted (secretFromToken leakyToken))], None)"
    by (simp add: TokenStore_List_def userHasFullPermissions_def invoke_def Let_def token_simps)
  have fields: "Status_PlaintextToken leakyToken = ''s3cret''
     \<and> Status_HashedToken leakyToken = ''s3cret''
     \<and> Status_PlaintextToken (leakyToken\<lparr>Status_HashedToken := []\<rparr>) = ''s3cret''
     \<and> mapGet (StringData (secretFromToken leakyToken)) ''hashedToken'' = ''s3cret''
     \<and> twSecrets leakedSecrets = [persisted (secretFromToken leakyToken)]
     \<and> mapGet (Data (persisted (secretFromToken leakyToken))) ''hashedToken'' = ''s3cret''
     \<and> Status_HashedToken (tokenFromSecret (persisted (secretFromToken leakyToken))) = ''s3cret''"
    by (simp add: token_simps)
  from create list fields show ?thesis by simp
qed

section \<open>Reading a token\<close>

text \<open>
  C9. When the secret of the token is found and the caller either owns the token or is
  allowed everything on tokens by the access review, \<open>TokenStore.Get\<close> returns nil
  for the token and nil for the error: the token it read is not returned.
\<close>

theorem TokenStore_Get_returns_nil:
  assumes "secretCache_Get t tokenNamespace name w = (Inr secret, w1)"
  shows "(Spec_UserID (tokenFromSecret secret) = GetName userInfo
            \<longrightarrow> TokenStore_Get t userInfo name (w, tr)
                  = ((None, None), (w1, tr @ [SecretCache_Get tokenNamespace name])))
       \<and> (\<forall>sar w2. Spec_UserID (tokenFromSecret secret) \<noteq> GetName userInfo
            \<and> sar_Create t (fullPermissionsReview userInfo) w1 = (Inr sar, w2) \<and> Status_Allowed sar
            \<longrightarrow> TokenStore_Get t userInfo name (w, tr)
                  = ((None, None), (w2, tr @ [SecretCache_Get tokenNamespace name,
                                             Sar_Create (fullPermissionsReview userInfo)])))"
  using assms
  by (auto simp: TokenStore_Get_def checkOtherUser_def userHasFullPermissions_def invoke_def Let_def)

theorem TokenStore_Get_returns_nil_witness:
  "TokenStore_Get memTokenStore (mkUser ''alice'') ''t1'' (oneSecret, [])
     = ((None, None), (oneSecret, [SecretCache_Get tokenNamespace ''t1'']))
   \<and> TokenStore_Get memTokenStore (mkUser ''admin'') ''t1'' (oneSecret, [])
     = ((None, None), (oneSecret, [SecretCache_Get tokenNamespace ''t1'',
                                   Sar_Create (fullPermissionsReview (mkUser ''admin''))]))"
  using TokenStore_Get_returns_nil [of memTokenStore "''t1''" oneSecret aliceSecret oneSecret
          "mkUser ''alice''" "[]"]
        TokenStore_Get_returns_nil [of memTokenStore "''t1''" oneSecret aliceSecret oneSecret
          "mkUser ''admin''" "[]"]
  by (simp add: token_simps Let_def)

section \<open>The sentinel comes last\<close>



end
